theory Spec2Isabelle
  imports Main "HOL-Library.Word"
begin

section \<open>Chaincode packages: core/common/ccprovider (cdspackage, sigcdspackage)\<close>

text \<open>
  A shallow embedding of the two package types \<open>CDSPackage\<close> and \<open>SignedCDSPackage\<close>.
  Go pointers that the code compares with \<open>nil\<close> are \<open>option\<close> values, a byte slice
  that the code compares with \<open>nil\<close> is a \<open>bytes option\<close> (\<open>None\<close> is the nil slice,
  \<open>Some []\<close> the empty one), every error return and every panic is a value of
  \<open>error\<close>, and the receiver a method mutates is passed in and returned.
\<close>

subsection \<open>Bytes and strings\<close>

type_synonym byte = "8 word"
type_synonym bytes = "byte list"

definition bytes_of_string :: "string \<Rightarrow> bytes" where
  \<comment> \<open>the conversion \<open>[]byte(s)\<close>\<close>
  "bytes_of_string s = map of_char s"

definition slice_bytes :: "bytes option \<Rightarrow> bytes" where
  \<comment> \<open>the contents of a slice: a nil slice has none\<close>
  "slice_bytes b = (case b of None \<Rightarrow> [] | Some xs \<Rightarrow> xs)"

definition bytes_Equal :: "bytes \<Rightarrow> bytes \<Rightarrow> bool" where
  \<comment> \<open>\<open>bytes.Equal\<close>: same length and same bytes; nil and empty are equal\<close>
  "bytes_Equal a b = (a = b)"

subsection \<open>Errors and panics\<close>

datatype panic =
    Nil_cds             \<comment> \<open>\<open>panic("nil cds")\<close>\<close>
  | Nil_ccdata          \<comment> \<open>dereference of a nil \<open>*ChaincodeData\<close>\<close>
  | Nil_ChaincodeSpec   \<comment> \<open>dereference of a nil \<open>cds.ChaincodeSpec\<close>\<close>
  | Nil_ChaincodeId     \<comment> \<open>dereference of a nil \<open>cds.ChaincodeSpec.ChaincodeId\<close>\<close>
  | Nil_data            \<comment> \<open>dereference of a nil receiver in \<open>Equals\<close>\<close>

datatype error =
    DecodeError         \<comment> \<open>an error of \<open>proto.Unmarshal\<close>\<close>
  | MarshalError        \<comment> \<open>an error of \<open>proto.Marshal\<close>\<close>
  | ExtractionError     \<comment> \<open>an error of \<open>ccpackage.ExtractSignedCCDepSpec\<close>\<close>
  | WrongEnvelopeType   \<comment> \<open>"invalid type of envelope for chaincode package"\<close>
  | PolicyMissing       \<comment> \<open>"instantiation policy cannot be nil for chaincode (%s:%s)"\<close>
  | HashProviderError   \<comment> \<open>an error of \<open>factory.InitFactories\<close> or of \<open>GetHash\<close>\<close>
  | Uninitialized       \<comment> \<open>"uninitialized package", "... cannot be nil ...", "nil data"\<close>
  | IdentityMismatch    \<comment> \<open>"invalid chaincode data %v (%v)"\<close>
  | DigestMismatch      \<comment> \<open>"data mismatch"\<close>
  | NotFound            \<comment> \<open>an error of \<open>GetChaincodePackage\<close>\<close>
  | AlreadyExists       \<comment> \<open>"chaincode %s exists"\<close>
  | StorageError        \<comment> \<open>an error of \<open>ioutil.WriteFile\<close>\<close>
  | Panic panic

subsection \<open>Messages consumed from the protos packages\<close>

record ChaincodeID =
  Name :: string
  Version :: string

record ChaincodeSpec =
  ChaincodeId :: "ChaincodeID option"

record ChaincodeDeploymentSpec =
  ChaincodeSpec :: "ChaincodeSpec option"
  CodePackage :: bytes

record Endorsement =
  Endorser :: bytes

text \<open>
  The elements of \<open>OwnerEndorsements\<close> are pointers in Go; the decoder never yields a
  nil element, and the model's list holds the records themselves.
\<close>

record SignedChaincodeDeploymentSpec =
  ChaincodeDeploymentSpec :: "bytes option"
  InstantiationPolicy :: "bytes option"
  OwnerEndorsements :: "Endorsement list"

record ChannelHeader =
  Type :: "32 word"

record Envelope =
  Payload :: bytes
  Signature :: bytes

definition ChaincodeId_of :: "ChaincodeDeploymentSpec \<Rightarrow> error + ChaincodeID" where
  \<comment> \<open>the field path \<open>cds.ChaincodeSpec.ChaincodeId\<close>, which panics on a nil pointer\<close>
  "ChaincodeId_of cds =
     (case ChaincodeSpec cds of
        None \<Rightarrow> Inl (Panic Nil_ChaincodeSpec)
      | Some cs \<Rightarrow>
          (case ChaincodeId cs of
             None \<Rightarrow> Inl (Panic Nil_ChaincodeId)
           | Some cid \<Rightarrow> Inr cid))"

subsection \<open>Digest records and ChaincodeData\<close>

record CDSData =
  CodeHash :: bytes
  MetaDataHash :: bytes

record SignedCDSData =
  S_CodeHash :: bytes
  S_MetaDataHash :: bytes
  S_SignatureHash :: bytes

record ChaincodeData =
  CD_Name :: string
  CD_Version :: string
  CD_Data :: bytes

definition CDSData_Equals :: "CDSData option \<Rightarrow> CDSData option \<Rightarrow> error + bool" where
  "CDSData_Equals data other =
     (case other of
        None \<Rightarrow> Inr False
      | Some ot \<Rightarrow>
          (case data of
             None \<Rightarrow> Inl (Panic Nil_data)
           | Some d \<Rightarrow>
               Inr (bytes_Equal (CodeHash d) (CodeHash ot) \<and>
                    bytes_Equal (MetaDataHash d) (MetaDataHash ot))))"

definition SignedCDSData_Equals ::
  "SignedCDSData option \<Rightarrow> SignedCDSData option \<Rightarrow> error + bool" where
  "SignedCDSData_Equals data other =
     (case other of
        None \<Rightarrow> Inr False
      | Some ot \<Rightarrow>
          (case data of
             None \<Rightarrow> Inl (Panic Nil_data)
           | Some d \<Rightarrow>
               Inr (bytes_Equal (S_CodeHash d) (S_CodeHash ot) \<and>
                    bytes_Equal (S_MetaDataHash d) (S_MetaDataHash ot) \<and>
                    bytes_Equal (S_SignatureHash d) (S_SignatureHash ot))))"

subsection \<open>External collaborators\<close>

text \<open>
  The protobuf codec, the BCCSP hash factory and the constants of other packages are
  parameters of the model. \<open>GetHash\<close> yields the digest function of the hash object,
  or nothing when the provider fails.
\<close>

record externals =
  proto_Unmarshal_Envelope :: "bytes \<Rightarrow> Envelope option"
  proto_Unmarshal_CDS :: "bytes \<Rightarrow> ChaincodeDeploymentSpec option"
  proto_Marshal_CDS :: "ChaincodeDeploymentSpec \<Rightarrow> bytes option"
  proto_Marshal_CDSData :: "CDSData \<Rightarrow> bytes option"
  proto_Unmarshal_CDSData :: "bytes \<Rightarrow> CDSData option"
  proto_Marshal_SignedCDSData :: "SignedCDSData \<Rightarrow> bytes option"
  proto_Unmarshal_SignedCDSData :: "bytes \<Rightarrow> SignedCDSData option"
  ExtractSignedCCDepSpec ::
    "Envelope \<Rightarrow> (ChannelHeader \<times> SignedChaincodeDeploymentSpec) option"
  HeaderType_CHAINCODE_PACKAGE :: "32 word"
  InitFactories :: bool
  GetHash :: "(bytes \<Rightarrow> bytes) option"
  chaincodeInstallPath :: string

text \<open>
  Modelled from the spec: \<open>ExtractSignedCCDepSpec\<close> (package ccpackage) is the
  envelope extraction "extractSignedDeploymentSpec(envelope) -> (channelHeader,
  SignedDeploymentSpec)", which fails if the envelope is not a well-formed
  signed-package envelope; it is the field of that name above.
\<close>

subsubsection \<open>The hash object\<close>

text \<open>
  Go's \<open>hash.Hash\<close>: the state is the bytes written since the last \<open>Reset\<close>;
  \<open>Sum(b)\<close> appends the digest of the state to \<open>b\<close> and leaves the state as it is.
\<close>

type_synonym hash_state = bytes

definition hash_New :: hash_state where
  "hash_New = []"

definition hash_Write :: "hash_state \<Rightarrow> bytes \<Rightarrow> hash_state" where
  "hash_Write h p = h @ p"

definition hash_Sum :: "(bytes \<Rightarrow> bytes) \<Rightarrow> hash_state \<Rightarrow> bytes \<Rightarrow> bytes" where
  "hash_Sum H h b = b @ H h"

definition hash_Reset :: "hash_state \<Rightarrow> hash_state" where
  "hash_Reset h = []"

subsubsection \<open>The local package store\<close>

record filesystem =
  files :: "string \<rightharpoonup> bytes"
  write_fails :: "string \<Rightarrow> bool"

definition os_Stat :: "filesystem \<Rightarrow> string \<Rightarrow> bool" where
  \<comment> \<open>whether \<open>os.Stat(path)\<close> returns a nil error\<close>
  "os_Stat fs path = (files fs path \<noteq> None)"

definition ioutil_WriteFile :: "filesystem \<Rightarrow> string \<Rightarrow> bytes \<Rightarrow> error + filesystem" where
  "ioutil_WriteFile fs path b =
     (if write_fails fs path then Inl StorageError
      else Inr (fs\<lparr>files := (files fs)(path \<mapsto> b)\<rparr>))"

definition package_path :: "externals \<Rightarrow> string \<Rightarrow> string \<Rightarrow> string" where
  \<comment> \<open>\<open>fmt.Sprintf("%s/%s.%s", chaincodeInstallPath, ccname, ccversion)\<close>\<close>
  "package_path X ccname ccversion =
     chaincodeInstallPath X @ ''/'' @ ccname @ ''.'' @ ccversion"

definition GetChaincodePackage ::
  "externals \<Rightarrow> filesystem \<Rightarrow> string \<Rightarrow> string \<Rightarrow> error + bytes" where
  \<comment> \<open>Modelled from the spec: \<open>GetChaincodePackage\<close> (ccprovider.go) is the store's
      "get(name, version) -> bytes | NotFound", keyed by the pair mapped to its location.\<close>
  "GetChaincodePackage X fs ccname ccversion =
     (case files fs (package_path X ccname ccversion) of
        None \<Rightarrow> Inl NotFound
      | Some b \<Rightarrow> Inr b)"

subsection \<open>CDSPackage\<close>

record CDSPackage =
  buf :: "bytes option"
  depSpec :: "ChaincodeDeploymentSpec option"
  data :: "CDSData option"

definition CDSPackage_getCDSData ::
  "externals \<Rightarrow> ChaincodeDeploymentSpec option \<Rightarrow> error + (bytes \<times> CDSData)" where
  "CDSPackage_getCDSData X cds_arg =
     (case cds_arg of
        None \<Rightarrow> Inl (Panic Nil_cds)
      | Some cds \<Rightarrow>
     (case proto_Marshal_CDS X cds of
        None \<Rightarrow> Inl MarshalError
      | Some b0 \<Rightarrow>
     if \<not> InitFactories X then Inl HashProviderError
     else
     (case GetHash X of
        None \<Rightarrow> Inl HashProviderError
      | Some H \<Rightarrow>
     let h0 = hash_New;
         codeHash = hash_Sum H h0 (CodePackage cds);
         h1 = hash_Reset h0
     in
     (case ChaincodeId_of cds of
        Inl e \<Rightarrow> Inl e
      | Inr cid \<Rightarrow>
     let h2 = hash_Write h1 (bytes_of_string (Name cid));
         h3 = hash_Write h2 (bytes_of_string (Version cid));
         metaDataHash = hash_Sum H h3 [];
         cdsdata = \<lparr>CodeHash = codeHash, MetaDataHash = metaDataHash\<rparr>
     in
     (case proto_Marshal_CDSData X cdsdata of
        None \<Rightarrow> Inl MarshalError
      | Some b \<Rightarrow> Inr (b, cdsdata))))))"

definition CDSPackage_ValidateCC ::
  "externals \<Rightarrow> CDSPackage \<Rightarrow> ChaincodeData option \<Rightarrow> error + ChaincodeDeploymentSpec" where
  "CDSPackage_ValidateCC X ccpack ccdata_arg =
     (case depSpec ccpack of
        None \<Rightarrow> Inl Uninitialized
      | Some ds \<Rightarrow>
     if data ccpack = None then Inl Uninitialized
     else
     (case ccdata_arg of
        None \<Rightarrow> Inl (Panic Nil_ccdata)
      | Some ccdata \<Rightarrow>
     (case ChaincodeId_of ds of
        Inl e \<Rightarrow> Inl e
      | Inr cid \<Rightarrow>
     if CD_Name ccdata \<noteq> Name cid \<or> CD_Version ccdata \<noteq> Version cid
     then Inl IdentityMismatch
     else
     (case proto_Unmarshal_CDSData X (CD_Data ccdata) of
        None \<Rightarrow> Inl DecodeError
      | Some otherdata \<Rightarrow>
     (case CDSData_Equals (data ccpack) (Some otherdata) of
        Inl e \<Rightarrow> Inl e
      | Inr eq \<Rightarrow> if \<not> eq then Inl DigestMismatch else Inr ds)))))"

definition CDSPackage_InitFromBuffer ::
  "externals \<Rightarrow> CDSPackage \<Rightarrow> bytes option \<Rightarrow> (error + ChaincodeData) \<times> CDSPackage" where
  "CDSPackage_InitFromBuffer X ccpack0 buf_arg =
     (let ccpack = ccpack0\<lparr>buf := None, depSpec := None, data := None\<rparr> in
     (case proto_Unmarshal_CDS X (slice_bytes buf_arg) of
        None \<Rightarrow> (Inl DecodeError, ccpack)
      | Some ds \<Rightarrow>
     (case CDSPackage_getCDSData X (Some ds) of
        Inl e \<Rightarrow> (Inl e, ccpack)
      | Inr (databytes, d) \<Rightarrow>
     let ccpack' = ccpack\<lparr>buf := buf_arg, depSpec := Some ds, data := Some d\<rparr> in
     (case ChaincodeId_of ds of
        Inl e \<Rightarrow> (Inl e, ccpack')
      | Inr cid \<Rightarrow>
          (Inr \<lparr>CD_Name = Name cid, CD_Version = Version cid, CD_Data = databytes\<rparr>,
           ccpack')))))"

definition CDSPackage_InitFromFS ::
  "externals \<Rightarrow> filesystem \<Rightarrow> CDSPackage \<Rightarrow> string \<Rightarrow> string \<Rightarrow>
   (error + (bytes option \<times> ChaincodeDeploymentSpec option)) \<times> CDSPackage" where
  "CDSPackage_InitFromFS X fs ccpack0 ccname ccversion =
     (let ccpack = ccpack0\<lparr>buf := None, depSpec := None, data := None\<rparr> in
     (case GetChaincodePackage X fs ccname ccversion of
        Inl e \<Rightarrow> (Inl e, ccpack)
      | Inr b \<Rightarrow>
     (case proto_Unmarshal_CDS X b of
        None \<Rightarrow> (Inl DecodeError, ccpack)
      | Some ds \<Rightarrow>
     (case CDSPackage_getCDSData X (Some ds) of
        Inl e \<Rightarrow> (Inl e, ccpack)
      | Inr (databytes, d) \<Rightarrow>
          (Inr (Some b, Some ds),
           ccpack\<lparr>buf := Some b, depSpec := Some ds, data := Some d\<rparr>)))))"

definition CDSPackage_PutChaincodeToFS ::
  "externals \<Rightarrow> filesystem \<Rightarrow> CDSPackage \<Rightarrow> error option \<times> filesystem" where
  "CDSPackage_PutChaincodeToFS X fs ccpack =
     (case buf ccpack of
        None \<Rightarrow> (Some Uninitialized, fs)
      | Some b \<Rightarrow>
     (case depSpec ccpack of
        None \<Rightarrow> (Some Uninitialized, fs)
      | Some ds \<Rightarrow>
     if data ccpack = None then (Some Uninitialized, fs)
     else
     (case ChaincodeId_of ds of
        Inl e \<Rightarrow> (Some e, fs)
      | Inr cid \<Rightarrow>
     let path = package_path X (Name cid) (Version cid) in
     if os_Stat fs path then (Some AlreadyExists, fs)
     else
     (case ioutil_WriteFile fs path b of
        Inl e \<Rightarrow> (Some e, fs)
      | Inr fs' \<Rightarrow> (None, fs')))))"

subsection \<open>SignedCDSPackage\<close>

record SignedCDSPackage =
  S_buf :: "bytes option"
  S_depSpec :: "ChaincodeDeploymentSpec option"
  S_sDepSpec :: "SignedChaincodeDeploymentSpec option"
  S_env :: "Envelope option"
  S_data :: "SignedCDSData option"

fun write_endorsers :: "hash_state \<Rightarrow> Endorsement list \<Rightarrow> hash_state" where
  \<comment> \<open>the loop \<open>for _, o := range scds.OwnerEndorsements { hash.Write(o.Endorser) }\<close>\<close>
  "write_endorsers h [] = h"
| "write_endorsers h (e # es) = write_endorsers (hash_Write h (Endorser e)) es"

definition SignedCDSPackage_getCDSData ::
  "externals \<Rightarrow> SignedChaincodeDeploymentSpec option \<Rightarrow> error + (bytes \<times> SignedCDSData)" where
  "SignedCDSPackage_getCDSData X scds_arg =
     (case scds_arg of
        None \<Rightarrow> Inl (Panic Nil_cds)
      | Some scds \<Rightarrow>
     (case proto_Unmarshal_CDS X (slice_bytes (ChaincodeDeploymentSpec scds)) of
        None \<Rightarrow> Inl DecodeError
      | Some cds \<Rightarrow>
     if \<not> InitFactories X then Inl HashProviderError
     else
     (case GetHash X of
        None \<Rightarrow> Inl HashProviderError
      | Some H \<Rightarrow>
     let h0 = hash_New;
         codeHash = hash_Sum H h0 (CodePackage cds);
         h1 = hash_Reset h0
     in
     (case ChaincodeId_of cds of
        Inl e \<Rightarrow> Inl e
      | Inr cid \<Rightarrow>
     let h2 = hash_Write h1 (bytes_of_string (Name cid));
         h3 = hash_Write h2 (bytes_of_string (Version cid));
         metaDataHash = hash_Sum H h3 [];
         h4 = hash_Reset h3
     in
     (case InstantiationPolicy scds of
        None \<Rightarrow> Inl PolicyMissing
      | Some policy \<Rightarrow>
     let h5 = hash_Write h4 policy;
         h6 = write_endorsers h5 (OwnerEndorsements scds);
         signatureHash = hash_Sum H h6 [];
         scdsdata = \<lparr>S_CodeHash = codeHash, S_MetaDataHash = metaDataHash,
                     S_SignatureHash = signatureHash\<rparr>
     in
     (case proto_Marshal_SignedCDSData X scdsdata of
        None \<Rightarrow> Inl MarshalError
      | Some b \<Rightarrow> Inr (b, scdsdata)))))))"

definition SignedCDSPackage_ValidateCC ::
  "externals \<Rightarrow> SignedCDSPackage \<Rightarrow> ChaincodeData option \<Rightarrow>
   error + ChaincodeDeploymentSpec" where
  "SignedCDSPackage_ValidateCC X ccpack ccdata_arg =
     (case S_sDepSpec ccpack of
        None \<Rightarrow> Inl Uninitialized
      | Some sds \<Rightarrow>
     if ChaincodeDeploymentSpec sds = None then Inl Uninitialized
     else
     (case S_depSpec ccpack of
        None \<Rightarrow> Inl Uninitialized
      | Some ds \<Rightarrow>
     (case ccdata_arg of
        None \<Rightarrow> Inl (Panic Nil_ccdata)
      | Some ccdata \<Rightarrow>
     (case ChaincodeId_of ds of
        Inl e \<Rightarrow> Inl e
      | Inr cid \<Rightarrow>
     if CD_Name ccdata \<noteq> Name cid \<or> CD_Version ccdata \<noteq> Version cid
     then Inl IdentityMismatch
     else
     (case proto_Unmarshal_SignedCDSData X (CD_Data ccdata) of
        None \<Rightarrow> Inl DecodeError
      | Some otherdata \<Rightarrow>
     (case SignedCDSData_Equals (S_data ccpack) (Some otherdata) of
        Inl e \<Rightarrow> Inl e
      | Inr eq \<Rightarrow> if \<not> eq then Inl DigestMismatch else Inr ds))))))"

definition SignedCDSPackage_InitFromBuffer ::
  "externals \<Rightarrow> SignedCDSPackage \<Rightarrow> bytes option \<Rightarrow>
   (error + ChaincodeData) \<times> SignedCDSPackage" where
  "SignedCDSPackage_InitFromBuffer X ccpack0 buf_arg =
     (let ccpack = ccpack0\<lparr>S_buf := None, S_sDepSpec := None, S_depSpec := None,
                           S_env := None, S_data := None\<rparr> in
     (case proto_Unmarshal_Envelope X (slice_bytes buf_arg) of
        None \<Rightarrow> (Inl DecodeError, ccpack)
      | Some env \<Rightarrow>
     (case ExtractSignedCCDepSpec X env of
        None \<Rightarrow> (Inl ExtractionError, ccpack)
      | Some (cHdr, sds) \<Rightarrow>
     if Type cHdr \<noteq> HeaderType_CHAINCODE_PACKAGE X then (Inl WrongEnvelopeType, ccpack)
     else
     (case proto_Unmarshal_CDS X (slice_bytes (ChaincodeDeploymentSpec sds)) of
        None \<Rightarrow> (Inl DecodeError, ccpack)
      | Some ds \<Rightarrow>
     (case SignedCDSPackage_getCDSData X (Some sds) of
        Inl e \<Rightarrow> (Inl e, ccpack)
      | Inr (databytes, d) \<Rightarrow>
     let ccpack' = ccpack\<lparr>S_buf := buf_arg, S_sDepSpec := Some sds, S_depSpec := Some ds,
                           S_env := Some env, S_data := Some d\<rparr> in
     (case ChaincodeId_of ds of
        Inl e \<Rightarrow> (Inl e, ccpack')
      | Inr cid \<Rightarrow>
          (Inr \<lparr>CD_Name = Name cid, CD_Version = Version cid, CD_Data = databytes\<rparr>,
           ccpack')))))))"

definition SignedCDSPackage_InitFromFS ::
  "externals \<Rightarrow> filesystem \<Rightarrow> SignedCDSPackage \<Rightarrow> string \<Rightarrow> string \<Rightarrow>
   (error + (bytes option \<times> ChaincodeDeploymentSpec option)) \<times> SignedCDSPackage" where
  "SignedCDSPackage_InitFromFS X fs ccpack0 ccname ccversion =
     (let ccpack = ccpack0\<lparr>S_buf := None, S_sDepSpec := None, S_depSpec := None,
                           S_env := None\<rparr> in
     (case GetChaincodePackage X fs ccname ccversion of
        Inl e \<Rightarrow> (Inl e, ccpack)
      | Inr b \<Rightarrow>
     (case SignedCDSPackage_InitFromBuffer X ccpack (Some b) of
        (Inl e, ccpack') \<Rightarrow> (Inl e, ccpack')
      | (Inr cd, ccpack') \<Rightarrow> (Inr (S_buf ccpack', S_depSpec ccpack'), ccpack'))))"

definition SignedCDSPackage_PutChaincodeToFS ::
  "externals \<Rightarrow> filesystem \<Rightarrow> SignedCDSPackage \<Rightarrow> error option \<times> filesystem" where
  "SignedCDSPackage_PutChaincodeToFS X fs ccpack =
     (case S_buf ccpack of
        None \<Rightarrow> (Some Uninitialized, fs)
      | Some b \<Rightarrow>
     if S_sDepSpec ccpack = None \<or> S_depSpec ccpack = None then (Some Uninitialized, fs)
     else if S_env ccpack = None then (Some Uninitialized, fs)
     else if S_data ccpack = None then (Some Uninitialized, fs)
     else
     (case S_depSpec ccpack of
        None \<Rightarrow> (Some Uninitialized, fs)
      | Some ds \<Rightarrow>
     (case ChaincodeId_of ds of
        Inl e \<Rightarrow> (Some e, fs)
      | Inr cid \<Rightarrow>
     let path = package_path X (Name cid) (Version cid) in
     if os_Stat fs path then (Some AlreadyExists, fs)
     else
     (case ioutil_WriteFile fs path b of
        Inl e \<Rightarrow> (Some e, fs)
      | Inr fs' \<Rightarrow> (None, fs')))))"

subsection \<open>Package states\<close>

definition CDSPackage_new :: CDSPackage where
  \<comment> \<open>the zero value \<open>CDSPackage{}\<close>\<close>
  "CDSPackage_new = \<lparr>buf = None, depSpec = None, data = None\<rparr>"

definition SignedCDSPackage_new :: SignedCDSPackage where
  \<comment> \<open>the zero value \<open>SignedCDSPackage{}\<close>\<close>
  "SignedCDSPackage_new =
     \<lparr>S_buf = None, S_depSpec = None, S_sDepSpec = None, S_env = None, S_data = None\<rparr>"

text \<open>
  The package values that calls of the public operations produce from a fresh package.
  \<open>ValidateCC\<close> and \<open>PutChaincodeToFS\<close> assign no field, so only the two
  initialisers appear; a call that panics leaves the fields as they were at the panic.
\<close>

inductive_set CDSPackage_reachable :: "CDSPackage set" where
  new: "CDSPackage_new \<in> CDSPackage_reachable"
| InitFromBuffer:
    "p \<in> CDSPackage_reachable \<Longrightarrow>
     snd (CDSPackage_InitFromBuffer X p b) \<in> CDSPackage_reachable"
| InitFromFS:
    "p \<in> CDSPackage_reachable \<Longrightarrow>
     snd (CDSPackage_InitFromFS X fs p ccname ccversion) \<in> CDSPackage_reachable"

inductive_set SignedCDSPackage_reachable :: "SignedCDSPackage set" where
  new: "SignedCDSPackage_new \<in> SignedCDSPackage_reachable"
| InitFromBuffer:
    "p \<in> SignedCDSPackage_reachable \<Longrightarrow>
     snd (SignedCDSPackage_InitFromBuffer X p b) \<in> SignedCDSPackage_reachable"
| InitFromFS:
    "p \<in> SignedCDSPackage_reachable \<Longrightarrow>
     snd (SignedCDSPackage_InitFromFS X fs p ccname ccversion) \<in> SignedCDSPackage_reachable"

definition CDSPackage_loaded ::
  "CDSPackage \<Rightarrow> bytes option \<Rightarrow> ChaincodeDeploymentSpec \<Rightarrow> ChaincodeID \<Rightarrow> CDSData \<Rightarrow> bool" where
  \<comment> \<open>every field populated, the identity of the spec present\<close>
  "CDSPackage_loaded p b ds cid d =
     (p = \<lparr>buf = b, depSpec = Some ds, data = Some d\<rparr> \<and> ChaincodeId_of ds = Inr cid)"

definition SignedCDSPackage_loaded ::
  "SignedCDSPackage \<Rightarrow> bytes option \<Rightarrow> Envelope \<Rightarrow> SignedChaincodeDeploymentSpec \<Rightarrow>
   ChaincodeDeploymentSpec \<Rightarrow> ChaincodeID \<Rightarrow> SignedCDSData \<Rightarrow> bool" where
  "SignedCDSPackage_loaded p b env sds ds cid d =
     (p = \<lparr>S_buf = b, S_depSpec = Some ds, S_sDepSpec = Some sds, S_env = Some env,
           S_data = Some d\<rparr> \<and>
      ChaincodeDeploymentSpec sds \<noteq> None \<and> ChaincodeId_of ds = Inr cid)"

subsection \<open>Laws of the serialization library\<close>

definition proto_roundtrip :: "externals \<Rightarrow> bool" where
  \<comment> \<open>decoding an encoded digest record gives the record back, and the empty input
      decodes to a message with no field set\<close>
  "proto_roundtrip X =
     ((\<forall>d b. proto_Marshal_CDSData X d = Some b \<longrightarrow> proto_Unmarshal_CDSData X b = Some d) \<and>
      (\<forall>d b. proto_Marshal_SignedCDSData X d = Some b \<longrightarrow>
             proto_Unmarshal_SignedCDSData X b = Some d) \<and>
      (\<forall>z. proto_Unmarshal_CDS X [] = Some z \<longrightarrow> ChaincodeSpec z = None))"

subsection \<open>A concrete instance of the collaborators\<close>

text \<open>
  A small hash with a two-byte digest and length-prefixed codecs, on which the
  operations can be run.
\<close>

definition sample_hash :: "bytes \<Rightarrow> bytes" where
  "sample_hash xs = [of_nat (length xs), foldr (+) xs 0]"

definition sample_cds :: ChaincodeDeploymentSpec where
  "sample_cds =
     \<lparr>ChaincodeSpec = Some \<lparr>ChaincodeId = Some \<lparr>Name = ''mycc'', Version = ''1.0''\<rparr>\<rparr>,
      CodePackage = bytes_of_string ''abc''\<rparr>"

definition sample_scds :: SignedChaincodeDeploymentSpec where
  "sample_scds =
     \<lparr>ChaincodeDeploymentSpec = Some [1], InstantiationPolicy = Some [112],
      OwnerEndorsements = [\<lparr>Endorser = [97]\<rparr>, \<lparr>Endorser = [97, 97]\<rparr>]\<rparr>"

definition sample_Unmarshal_CDS :: "bytes \<Rightarrow> ChaincodeDeploymentSpec option" where
  "sample_Unmarshal_CDS b =
     (if b = [] then Some \<lparr>ChaincodeSpec = None, CodePackage = []\<rparr>
      else if b = [1] then Some sample_cds
      else None)"

definition sample_Marshal_CDS :: "ChaincodeDeploymentSpec \<Rightarrow> bytes option" where
  "sample_Marshal_CDS cds =
     (if cds = sample_cds then Some [1]
      else if cds = \<lparr>ChaincodeSpec = None, CodePackage = []\<rparr> then Some []
      else None)"

definition sample_Marshal_CDSData :: "CDSData \<Rightarrow> bytes option" where
  "sample_Marshal_CDSData d =
     (if length (CodeHash d) < 256
      then Some (of_nat (length (CodeHash d)) # CodeHash d @ MetaDataHash d)
      else None)"

definition sample_Unmarshal_CDSData :: "bytes \<Rightarrow> CDSData option" where
  "sample_Unmarshal_CDSData b =
     (case b of
        [] \<Rightarrow> None
      | n # rest \<Rightarrow>
          if unat n \<le> length rest
          then Some \<lparr>CodeHash = take (unat n) rest, MetaDataHash = drop (unat n) rest\<rparr>
          else None)"

definition sample_Marshal_SignedCDSData :: "SignedCDSData \<Rightarrow> bytes option" where
  "sample_Marshal_SignedCDSData d =
     (if length (S_CodeHash d) < 256 \<and> length (S_MetaDataHash d) < 256
      then Some (of_nat (length (S_CodeHash d)) # of_nat (length (S_MetaDataHash d)) #
                 S_CodeHash d @ S_MetaDataHash d @ S_SignatureHash d)
      else None)"

definition sample_Unmarshal_SignedCDSData :: "bytes \<Rightarrow> SignedCDSData option" where
  "sample_Unmarshal_SignedCDSData b =
     (case b of
        n # m # rest \<Rightarrow>
          if unat n + unat m \<le> length rest
          then Some \<lparr>S_CodeHash = take (unat n) rest,
                     S_MetaDataHash = take (unat m) (drop (unat n) rest),
                     S_SignatureHash = drop (unat m) (drop (unat n) rest)\<rparr>
          else None
      | _ \<Rightarrow> None)"

definition sample_Unmarshal_Envelope :: "bytes \<Rightarrow> Envelope option" where
  "sample_Unmarshal_Envelope b = Some \<lparr>Payload = b, Signature = []\<rparr>"

definition sample_Extract ::
  "Envelope \<Rightarrow> (ChannelHeader \<times> SignedChaincodeDeploymentSpec) option" where
  "sample_Extract env =
     (if Payload env = [2] then Some (\<lparr>Type = 6\<rparr>, sample_scds)
      else if Payload env = [3]
      then Some (\<lparr>Type = 6\<rparr>, sample_scds\<lparr>InstantiationPolicy := None\<rparr>)
      else None)"

definition sample_externals :: externals where
  "sample_externals =
     \<lparr>proto_Unmarshal_Envelope = sample_Unmarshal_Envelope,
      proto_Unmarshal_CDS = sample_Unmarshal_CDS,
      proto_Marshal_CDS = sample_Marshal_CDS,
      proto_Marshal_CDSData = sample_Marshal_CDSData,
      proto_Unmarshal_CDSData = sample_Unmarshal_CDSData,
      proto_Marshal_SignedCDSData = sample_Marshal_SignedCDSData,
      proto_Unmarshal_SignedCDSData = sample_Unmarshal_SignedCDSData,
      ExtractSignedCCDepSpec = sample_Extract,
      HeaderType_CHAINCODE_PACKAGE = 6,
      InitFactories = True,
      GetHash = Some sample_hash,
      chaincodeInstallPath = ''/var/hyperledger/production/chaincodes''\<rparr>"

definition empty_store :: filesystem where
  "empty_store = \<lparr>files = Map.empty, write_fails = (\<lambda>path. False)\<rparr>"

text \<open>The packages that initialisation from the buffers \<open>[1]\<close> and \<open>[2]\<close> yields.\<close>

definition sample_package :: CDSPackage where
  "sample_package =
     \<lparr>buf = Some [1], depSpec = Some sample_cds,
      data = Some \<lparr>CodeHash = [97, 98, 99, 0, 0], MetaDataHash = [7, 59]\<rparr>\<rparr>"

definition sample_signed_package :: SignedCDSPackage where
  "sample_signed_package =
     \<lparr>S_buf = Some [2], S_depSpec = Some sample_cds, S_sDepSpec = Some sample_scds,
      S_env = Some \<lparr>Payload = [2], Signature = []\<rparr>,
      S_data = Some \<lparr>S_CodeHash = [97, 98, 99, 0, 0], S_MetaDataHash = [7, 59],
                     S_SignatureHash = [4, 147]\<rparr>\<rparr>"

definition sample_path :: string where
  "sample_path = ''/var/hyperledger/production/chaincodes/mycc.1.0''"

section \<open>Supporting lemmas\<close>

lemmas hash_defs = hash_New_def hash_Write_def hash_Sum_def hash_Reset_def

lemmas sample_defs =
  sample_externals_def sample_hash_def sample_cds_def sample_scds_def
  sample_Unmarshal_CDS_def sample_Marshal_CDS_def sample_Marshal_CDSData_def
  sample_Unmarshal_CDSData_def sample_Marshal_SignedCDSData_def
  sample_Unmarshal_SignedCDSData_def sample_Unmarshal_Envelope_def sample_Extract_def
  empty_store_def

lemmas model_defs =
  hash_defs bytes_of_string_def slice_bytes_def bytes_Equal_def ChaincodeId_of_def
  package_path_def os_Stat_def ioutil_WriteFile_def GetChaincodePackage_def

lemma write_endorsers_concat:
  "write_endorsers h es = h @ concat (map Endorser es)"
  by (induction es arbitrary: h) (simp_all add: hash_Write_def)

lemma CDSPackage_getCDSData_Inr:
  assumes "CDSPackage_getCDSData X (Some cds) = Inr (b, d)"
  shows "\<exists>H cid. InitFactories X \<and> GetHash X = Some H \<and> ChaincodeId_of cds = Inr cid \<and>
           d = \<lparr>CodeHash = CodePackage cds @ H [],
                MetaDataHash = H (bytes_of_string (Name cid) @ bytes_of_string (Version cid))\<rparr> \<and>
           proto_Marshal_CDSData X d = Some b"
  using assms
  by (auto simp: CDSPackage_getCDSData_def hash_defs Let_def
           split: option.splits if_splits sum.splits)

lemma SignedCDSPackage_getCDSData_Inr:
  assumes "SignedCDSPackage_getCDSData X (Some scds) = Inr (b, d)"
  shows "\<exists>H cds cid policy. InitFactories X \<and> GetHash X = Some H \<and>
           proto_Unmarshal_CDS X (slice_bytes (ChaincodeDeploymentSpec scds)) = Some cds \<and>
           ChaincodeId_of cds = Inr cid \<and>
           InstantiationPolicy scds = Some policy \<and>
           d = \<lparr>S_CodeHash = CodePackage cds @ H [],
                S_MetaDataHash = H (bytes_of_string (Name cid) @ bytes_of_string (Version cid)),
                S_SignatureHash = H (policy @ concat (map Endorser (OwnerEndorsements scds)))\<rparr> \<and>
           proto_Marshal_SignedCDSData X d = Some b"
  using assms
  by (auto simp: SignedCDSPackage_getCDSData_def hash_defs Let_def write_endorsers_concat
           split: option.splits if_splits sum.splits)

lemma sample_unsigned_run:
  "CDSPackage_getCDSData sample_externals (Some sample_cds) =
     Inr ([5, 97, 98, 99, 0, 0, 7, 59], \<lparr>CodeHash = [97, 98, 99, 0, 0], MetaDataHash = [7, 59]\<rparr>)"
  by (simp add: CDSPackage_getCDSData_def sample_defs model_defs Let_def)

lemma sample_signed_run:
  "SignedCDSPackage_getCDSData sample_externals (Some sample_scds) =
     Inr ([5, 2, 97, 98, 99, 0, 0, 7, 59, 4, 147],
          \<lparr>S_CodeHash = [97, 98, 99, 0, 0], S_MetaDataHash = [7, 59], S_SignatureHash = [4, 147]\<rparr>)"
  by (simp add: SignedCDSPackage_getCDSData_def sample_defs model_defs Let_def)

lemmas loaded_defs = CDSPackage_loaded_def SignedCDSPackage_loaded_def

lemma sample_package_init:
  "CDSPackage_InitFromBuffer sample_externals CDSPackage_new (Some [1]) =
     (Inr \<lparr>CD_Name = ''mycc'', CD_Version = ''1.0'', CD_Data = [5, 97, 98, 99, 0, 0, 7, 59]\<rparr>,
      sample_package)"
  by (simp add: CDSPackage_InitFromBuffer_def CDSPackage_getCDSData_def CDSPackage_new_def
        sample_package_def sample_defs model_defs Let_def)

lemma sample_signed_package_init:
  "SignedCDSPackage_InitFromBuffer sample_externals SignedCDSPackage_new (Some [2]) =
     (Inr \<lparr>CD_Name = ''mycc'', CD_Version = ''1.0'',
           CD_Data = [5, 2, 97, 98, 99, 0, 0, 7, 59, 4, 147]\<rparr>,
      sample_signed_package)"
  by (simp add: SignedCDSPackage_InitFromBuffer_def SignedCDSPackage_getCDSData_def
        SignedCDSPackage_new_def sample_signed_package_def sample_defs model_defs Let_def)

lemma sample_package_loaded:
  "CDSPackage_loaded sample_package (Some [1]) sample_cds \<lparr>Name = ''mycc'', Version = ''1.0''\<rparr>
     \<lparr>CodeHash = [97, 98, 99, 0, 0], MetaDataHash = [7, 59]\<rparr>"
  by (simp add: CDSPackage_loaded_def sample_package_def sample_cds_def ChaincodeId_of_def)

lemma sample_signed_package_loaded:
  "SignedCDSPackage_loaded sample_signed_package (Some [2]) \<lparr>Payload = [2], Signature = []\<rparr>
     sample_scds sample_cds \<lparr>Name = ''mycc'', Version = ''1.0''\<rparr>
     \<lparr>S_CodeHash = [97, 98, 99, 0, 0], S_MetaDataHash = [7, 59], S_SignatureHash = [4, 147]\<rparr>"
  by (simp add: SignedCDSPackage_loaded_def sample_signed_package_def sample_cds_def
        sample_scds_def ChaincodeId_of_def)

lemma CDSPackage_Put_exists:
  assumes "CDSPackage_loaded p (Some bf) ds cid d"
    and "files fs (package_path X (Name cid) (Version cid)) = Some old"
  shows "CDSPackage_PutChaincodeToFS X fs p = (Some AlreadyExists, fs)"
  using assms
  by (simp add: CDSPackage_loaded_def CDSPackage_PutChaincodeToFS_def os_Stat_def Let_def)

lemma SignedCDSPackage_Put_exists:
  assumes "SignedCDSPackage_loaded p (Some bf) env sds ds cid d"
    and "files fs (package_path X (Name cid) (Version cid)) = Some old"
  shows "SignedCDSPackage_PutChaincodeToFS X fs p = (Some AlreadyExists, fs)"
  using assms
  by (simp add: SignedCDSPackage_loaded_def SignedCDSPackage_PutChaincodeToFS_def
        os_Stat_def Let_def)

lemma CDSPackage_Put_twice:
  assumes "CDSPackage_PutChaincodeToFS X fs p = (None, fs')"
  shows "CDSPackage_PutChaincodeToFS X fs' p = (Some AlreadyExists, fs')"
  using assms
  by (auto simp: CDSPackage_PutChaincodeToFS_def os_Stat_def ioutil_WriteFile_def Let_def
           split: option.splits sum.splits if_splits)

lemma SignedCDSPackage_Put_twice:
  assumes "SignedCDSPackage_PutChaincodeToFS X fs p = (None, fs')"
  shows "SignedCDSPackage_PutChaincodeToFS X fs' p = (Some AlreadyExists, fs')"
  using assms
  by (auto simp: SignedCDSPackage_PutChaincodeToFS_def os_Stat_def ioutil_WriteFile_def
                 Let_def
           split: option.splits sum.splits if_splits)

subsection \<open>No call passes a nil spec to the digest computation\<close>

lemma CDSPackage_getCDSData_no_nil_cds:
  "CDSPackage_getCDSData X (Some cds) \<noteq> Inl (Panic Nil_cds)"
  by (simp add: CDSPackage_getCDSData_def ChaincodeId_of_def Let_def
           split: option.splits sum.splits)

lemma SignedCDSPackage_getCDSData_no_nil_cds:
  "SignedCDSPackage_getCDSData X (Some scds) \<noteq> Inl (Panic Nil_cds)"
  by (simp add: SignedCDSPackage_getCDSData_def ChaincodeId_of_def Let_def
           split: option.splits sum.splits)

lemma ChaincodeId_of_no_nil_cds:
  "ChaincodeId_of ds \<noteq> Inl (Panic Nil_cds)" "ChaincodeId_of ds \<noteq> Inl (Panic Nil_data)"
  by (simp_all add: ChaincodeId_of_def split: option.splits)

lemma CDSPackage_InitFromBuffer_no_nil_cds:
  "fst (CDSPackage_InitFromBuffer X p b) \<noteq> Inl (Panic Nil_cds)"
proof (cases "proto_Unmarshal_CDS X (slice_bytes b)")
  case None
  then show ?thesis by (simp add: CDSPackage_InitFromBuffer_def)
next
  case (Some ds)
  show ?thesis
  proof (cases "CDSPackage_getCDSData X (Some ds)")
    case (Inl e)
    with Some CDSPackage_getCDSData_no_nil_cds [of X ds] show ?thesis
      by (simp add: CDSPackage_InitFromBuffer_def)
  next
    case (Inr r)
    with Some ChaincodeId_of_no_nil_cds(1) [of ds] show ?thesis
      by (cases r) (auto simp: CDSPackage_InitFromBuffer_def Let_def split: sum.splits)
  qed
qed

lemma CDSPackage_InitFromFS_no_nil_cds:
  "fst (CDSPackage_InitFromFS X fs p ccname ccversion) \<noteq> Inl (Panic Nil_cds)"
proof (cases "GetChaincodePackage X fs ccname ccversion")
  case (Inl e)
  then have "e = NotFound"
    by (simp add: GetChaincodePackage_def split: option.splits)
  with Inl show ?thesis by (simp add: CDSPackage_InitFromFS_def)
next
  case (Inr b)
  show ?thesis
  proof (cases "proto_Unmarshal_CDS X b")
    case None
    with Inr show ?thesis by (simp add: CDSPackage_InitFromFS_def)
  next
    case (Some ds)
    with Inr CDSPackage_getCDSData_no_nil_cds [of X ds] show ?thesis
      by (auto simp: CDSPackage_InitFromFS_def Let_def split: sum.splits prod.splits)
  qed
qed

lemma SignedCDSPackage_InitFromBuffer_no_nil_cds:
  "fst (SignedCDSPackage_InitFromBuffer X p b) \<noteq> Inl (Panic Nil_cds)"
proof (cases "proto_Unmarshal_Envelope X (slice_bytes b)")
  case None
  then show ?thesis by (simp add: SignedCDSPackage_InitFromBuffer_def)
next
  case env: (Some env)
  show ?thesis
  proof (cases "ExtractSignedCCDepSpec X env")
    case None
    with env show ?thesis by (simp add: SignedCDSPackage_InitFromBuffer_def)
  next
    case (Some hs)
    obtain cHdr sds where hs: "hs = (cHdr, sds)" by (cases hs)
    show ?thesis
    proof (cases "Type cHdr = HeaderType_CHAINCODE_PACKAGE X")
      case False
      with env Some hs show ?thesis by (simp add: SignedCDSPackage_InitFromBuffer_def)
    next
      case True
      show ?thesis
      proof (cases "proto_Unmarshal_CDS X (slice_bytes (ChaincodeDeploymentSpec sds))")
        case None
        with env Some hs True show ?thesis
          by (simp add: SignedCDSPackage_InitFromBuffer_def)
      next
        case ds: (Some ds)
        show ?thesis
        proof (cases "SignedCDSPackage_getCDSData X (Some sds)")
          case (Inl e)
          with env Some hs True ds SignedCDSPackage_getCDSData_no_nil_cds [of X sds]
          show ?thesis by (simp add: SignedCDSPackage_InitFromBuffer_def)
        next
          case (Inr r)
          with env Some hs True ds ChaincodeId_of_no_nil_cds(1) [of ds] show ?thesis
            by (cases r)
               (auto simp: SignedCDSPackage_InitFromBuffer_def Let_def split: sum.splits)
        qed
      qed
    qed
  qed
qed

lemma SignedCDSPackage_InitFromFS_no_nil_cds:
  "fst (SignedCDSPackage_InitFromFS X fs p ccname ccversion) \<noteq> Inl (Panic Nil_cds)"
proof (cases "GetChaincodePackage X fs ccname ccversion")
  case (Inl e)
  then have "e = NotFound"
    by (simp add: GetChaincodePackage_def split: option.splits)
  with Inl show ?thesis by (simp add: SignedCDSPackage_InitFromFS_def)
next
  case (Inr b)
  let ?p = "p\<lparr>S_buf := None, S_sDepSpec := None, S_depSpec := None, S_env := None\<rparr>"
  from SignedCDSPackage_InitFromBuffer_no_nil_cds [of X ?p "Some b"] Inr
  show ?thesis
    by (cases "SignedCDSPackage_InitFromBuffer X ?p (Some b)")
       (auto simp: SignedCDSPackage_InitFromFS_def Let_def split: sum.splits)
qed

lemma CDSPackage_ValidateCC_no_panic:
  "CDSPackage_ValidateCC X p cd \<noteq> Inl (Panic Nil_data)"
  "CDSPackage_ValidateCC X p cd \<noteq> Inl (Panic Nil_cds)"
  by (auto simp: CDSPackage_ValidateCC_def CDSData_Equals_def ChaincodeId_of_def
           split: option.splits sum.splits if_splits)

lemma SignedCDSPackage_ValidateCC_no_nil_cds:
  "SignedCDSPackage_ValidateCC X p cd \<noteq> Inl (Panic Nil_cds)"
  by (auto simp: SignedCDSPackage_ValidateCC_def SignedCDSData_Equals_def ChaincodeId_of_def
           split: option.splits sum.splits if_splits)

lemma SignedCDSPackage_ValidateCC_no_nil_data:
  assumes "S_sDepSpec p \<noteq> None \<longrightarrow> S_data p \<noteq> None"
  shows "SignedCDSPackage_ValidateCC X p cd \<noteq> Inl (Panic Nil_data)"
  using assms
  by (auto simp: SignedCDSPackage_ValidateCC_def SignedCDSData_Equals_def ChaincodeId_of_def
           split: option.splits sum.splits if_splits)

lemma PutChaincodeToFS_no_nil_cds:
  "fst (CDSPackage_PutChaincodeToFS X fs p) \<noteq> Some (Panic Nil_cds)"
  "fst (SignedCDSPackage_PutChaincodeToFS X fs sp) \<noteq> Some (Panic Nil_cds)"
  by (auto simp: CDSPackage_PutChaincodeToFS_def SignedCDSPackage_PutChaincodeToFS_def
                 ChaincodeId_of_def ioutil_WriteFile_def Let_def
           split: option.splits sum.splits if_splits)

subsection \<open>The digest record of a reachable signed package\<close>

lemma SignedCDSPackage_InitFromBuffer_data:
  "S_sDepSpec (snd (SignedCDSPackage_InitFromBuffer X p b)) \<noteq> None \<Longrightarrow>
   S_data (snd (SignedCDSPackage_InitFromBuffer X p b)) \<noteq> None"
  by (auto simp: SignedCDSPackage_InitFromBuffer_def Let_def
           split: option.splits sum.splits prod.splits if_splits)

lemma SignedCDSPackage_InitFromFS_data:
  "S_sDepSpec (snd (SignedCDSPackage_InitFromFS X fs p ccname ccversion)) \<noteq> None \<Longrightarrow>
   S_data (snd (SignedCDSPackage_InitFromFS X fs p ccname ccversion)) \<noteq> None"
proof (cases "GetChaincodePackage X fs ccname ccversion")
  case (Inl e)
  assume "S_sDepSpec (snd (SignedCDSPackage_InitFromFS X fs p ccname ccversion)) \<noteq> None"
  with Inl show ?thesis by (simp add: SignedCDSPackage_InitFromFS_def)
next
  case (Inr b)
  let ?p = "p\<lparr>S_buf := None, S_sDepSpec := None, S_depSpec := None, S_env := None\<rparr>"
  have eq: "snd (SignedCDSPackage_InitFromFS X fs p ccname ccversion) =
            snd (SignedCDSPackage_InitFromBuffer X ?p (Some b))"
    using Inr
    by (cases "SignedCDSPackage_InitFromBuffer X ?p (Some b)")
       (auto simp: SignedCDSPackage_InitFromFS_def Let_def split: sum.splits)
  assume "S_sDepSpec (snd (SignedCDSPackage_InitFromFS X fs p ccname ccversion)) \<noteq> None"
  with eq SignedCDSPackage_InitFromBuffer_data [of X ?p "Some b"] show ?thesis by simp
qed

lemma SignedCDSPackage_reachable_data:
  "p \<in> SignedCDSPackage_reachable \<Longrightarrow> S_sDepSpec p \<noteq> None \<Longrightarrow> S_data p \<noteq> None"
proof (induction rule: SignedCDSPackage_reachable.induct)
  case new
  then show ?case by (simp add: SignedCDSPackage_new_def)
next
  case (InitFromBuffer p X b)
  then show ?case using SignedCDSPackage_InitFromBuffer_data by blast
next
  case (InitFromFS p X fs ccname ccversion)
  then show ?case using SignedCDSPackage_InitFromFS_data by blast
qed

lemma sample_package_reachable: "sample_package \<in> CDSPackage_reachable"
  using CDSPackage_reachable.InitFromBuffer
          [OF CDSPackage_reachable.new, of sample_externals "Some [1]"]
  by (simp add: sample_package_init)

lemma sample_signed_package_reachable: "sample_signed_package \<in> SignedCDSPackage_reachable"
  using SignedCDSPackage_reachable.InitFromBuffer
          [OF SignedCDSPackage_reachable.new, of sample_externals "Some [2]"]
  by (simp add: sample_signed_package_init)

subsection \<open>What a successful initialisation leaves\<close>

lemma CDSPackage_InitFromBuffer_Inr:
  assumes "CDSPackage_InitFromBuffer X p b = (Inr cd, p')"
  shows "\<exists>ds cid d bs.
           proto_Unmarshal_CDS X (slice_bytes b) = Some ds \<and>
           CDSPackage_getCDSData X (Some ds) = Inr (bs, d) \<and>
           ChaincodeId_of ds = Inr cid \<and>
           cd = \<lparr>CD_Name = Name cid, CD_Version = Version cid, CD_Data = bs\<rparr> \<and>
           p' = \<lparr>buf = b, depSpec = Some ds, data = Some d\<rparr>"
proof (cases "proto_Unmarshal_CDS X (slice_bytes b)")
  case None
  with assms show ?thesis by (simp add: CDSPackage_InitFromBuffer_def)
next
  case (Some ds)
  show ?thesis
  proof (cases "CDSPackage_getCDSData X (Some ds)")
    case (Inl e)
    with Some assms show ?thesis by (simp add: CDSPackage_InitFromBuffer_def)
  next
    case (Inr r)
    obtain bs d where r: "r = (bs, d)" by (cases r)
    show ?thesis
    proof (cases "ChaincodeId_of ds")
      case (Inl e)
      with Some Inr r assms show ?thesis
        by (simp add: CDSPackage_InitFromBuffer_def Let_def)
    next
      case cid: (Inr cid)
      with Some Inr r assms show ?thesis
        by (auto simp: CDSPackage_InitFromBuffer_def Let_def)
    qed
  qed
qed

lemma SignedCDSPackage_InitFromBuffer_Inr:
  assumes "SignedCDSPackage_InitFromBuffer X p b = (Inr cd, p')"
  shows "\<exists>env cHdr sds ds cid d bs.
           proto_Unmarshal_Envelope X (slice_bytes b) = Some env \<and>
           ExtractSignedCCDepSpec X env = Some (cHdr, sds) \<and>
           Type cHdr = HeaderType_CHAINCODE_PACKAGE X \<and>
           proto_Unmarshal_CDS X (slice_bytes (ChaincodeDeploymentSpec sds)) = Some ds \<and>
           SignedCDSPackage_getCDSData X (Some sds) = Inr (bs, d) \<and>
           ChaincodeId_of ds = Inr cid \<and>
           cd = \<lparr>CD_Name = Name cid, CD_Version = Version cid, CD_Data = bs\<rparr> \<and>
           p' = \<lparr>S_buf = b, S_depSpec = Some ds, S_sDepSpec = Some sds, S_env = Some env,
                 S_data = Some d\<rparr>"
proof (cases "proto_Unmarshal_Envelope X (slice_bytes b)")
  case None
  with assms show ?thesis by (simp add: SignedCDSPackage_InitFromBuffer_def)
next
  case env: (Some env)
  show ?thesis
  proof (cases "ExtractSignedCCDepSpec X env")
    case None
    with env assms show ?thesis by (simp add: SignedCDSPackage_InitFromBuffer_def)
  next
    case (Some hs)
    obtain cHdr sds where hs: "hs = (cHdr, sds)" by (cases hs)
    show ?thesis
    proof (cases "Type cHdr = HeaderType_CHAINCODE_PACKAGE X")
      case False
      with env Some hs assms show ?thesis
        by (simp add: SignedCDSPackage_InitFromBuffer_def)
    next
      case True
      show ?thesis
      proof (cases "proto_Unmarshal_CDS X (slice_bytes (ChaincodeDeploymentSpec sds))")
        case None
        with env Some hs True assms show ?thesis
          by (simp add: SignedCDSPackage_InitFromBuffer_def)
      next
        case ds: (Some ds)
        show ?thesis
        proof (cases "SignedCDSPackage_getCDSData X (Some sds)")
          case (Inl e)
          with env Some hs True ds assms show ?thesis
            by (simp add: SignedCDSPackage_InitFromBuffer_def)
        next
          case (Inr r)
          obtain bs d where r: "r = (bs, d)" by (cases r)
          show ?thesis
          proof (cases "ChaincodeId_of ds")
            case (Inl e)
            with env Some hs True ds Inr r assms show ?thesis
              by (simp add: SignedCDSPackage_InitFromBuffer_def Let_def)
          next
            case (Inr cid)
            with env Some hs True ds \<open>SignedCDSPackage_getCDSData X (Some sds) = Inr r\<close>
              r assms
            show ?thesis
              by (auto simp: SignedCDSPackage_InitFromBuffer_def Let_def)
          qed
        qed
      qed
    qed
  qed
qed

lemma CDSPackage_roundtrip:
  assumes laws: "proto_roundtrip X"
    and init: "CDSPackage_InitFromBuffer X p b = (Inr cd, p')"
  shows "\<exists>ds. proto_Unmarshal_CDS X (slice_bytes b) = Some ds \<and>
              CDSPackage_ValidateCC X p' (Some cd) = Inr ds"
proof -
  from CDSPackage_InitFromBuffer_Inr [OF init]
  obtain ds cid d bs where
    ds: "proto_Unmarshal_CDS X (slice_bytes b) = Some ds"
    and g: "CDSPackage_getCDSData X (Some ds) = Inr (bs, d)"
    and cid: "ChaincodeId_of ds = Inr cid"
    and cd: "cd = \<lparr>CD_Name = Name cid, CD_Version = Version cid, CD_Data = bs\<rparr>"
    and p': "p' = \<lparr>buf = b, depSpec = Some ds, data = Some d\<rparr>"
    by blast
  from CDSPackage_getCDSData_Inr [OF g]
  have "proto_Marshal_CDSData X d = Some bs" by blast
  with laws have "proto_Unmarshal_CDSData X bs = Some d"
    by (simp add: proto_roundtrip_def)
  with cid cd p' have "CDSPackage_ValidateCC X p' (Some cd) = Inr ds"
    by (simp add: CDSPackage_ValidateCC_def CDSData_Equals_def bytes_Equal_def)
  with ds show ?thesis by blast
qed

lemma SignedCDSPackage_roundtrip:
  assumes laws: "proto_roundtrip X"
    and init: "SignedCDSPackage_InitFromBuffer X p b = (Inr cd, p')"
  shows "\<exists>env cHdr sds ds.
           proto_Unmarshal_Envelope X (slice_bytes b) = Some env \<and>
           ExtractSignedCCDepSpec X env = Some (cHdr, sds) \<and>
           proto_Unmarshal_CDS X (slice_bytes (ChaincodeDeploymentSpec sds)) = Some ds \<and>
           SignedCDSPackage_ValidateCC X p' (Some cd) = Inr ds"
proof -
  from SignedCDSPackage_InitFromBuffer_Inr [OF init]
  obtain env cHdr sds ds cid d bs where
    env: "proto_Unmarshal_Envelope X (slice_bytes b) = Some env"
    and ex: "ExtractSignedCCDepSpec X env = Some (cHdr, sds)"
    and ds: "proto_Unmarshal_CDS X (slice_bytes (ChaincodeDeploymentSpec sds)) = Some ds"
    and g: "SignedCDSPackage_getCDSData X (Some sds) = Inr (bs, d)"
    and cid: "ChaincodeId_of ds = Inr cid"
    and cd: "cd = \<lparr>CD_Name = Name cid, CD_Version = Version cid, CD_Data = bs\<rparr>"
    and p': "p' = \<lparr>S_buf = b, S_depSpec = Some ds, S_sDepSpec = Some sds,
                    S_env = Some env, S_data = Some d\<rparr>"
    by blast
  have nonnil: "ChaincodeDeploymentSpec sds \<noteq> None"
  proof
    assume "ChaincodeDeploymentSpec sds = None"
    with ds have "proto_Unmarshal_CDS X [] = Some ds" by (simp add: slice_bytes_def)
    with laws have "ChaincodeSpec ds = None" by (simp add: proto_roundtrip_def)
    with cid show False by (simp add: ChaincodeId_of_def)
  qed
  from SignedCDSPackage_getCDSData_Inr [OF g]
  have "proto_Marshal_SignedCDSData X d = Some bs" by blast
  with laws have "proto_Unmarshal_SignedCDSData X bs = Some d"
    by (simp add: proto_roundtrip_def)
  with cid cd p' nonnil have "SignedCDSPackage_ValidateCC X p' (Some cd) = Inr ds"
    by (auto simp: SignedCDSPackage_ValidateCC_def SignedCDSData_Equals_def bytes_Equal_def)
  with env ex ds show ?thesis by blast
qed

subsection \<open>The sample codecs satisfy the laws\<close>

lemma sample_Marshal_CDSData_inverse:
  assumes "sample_Marshal_CDSData d = Some b"
  shows "sample_Unmarshal_CDSData b = Some d"
proof -
  from assms have len: "length (CodeHash d) < 256"
    and b: "b = of_nat (length (CodeHash d)) # CodeHash d @ MetaDataHash d"
    by (auto simp: sample_Marshal_CDSData_def split: if_splits)
  from len have "unat (of_nat (length (CodeHash d)) :: byte) = length (CodeHash d)"
    by (simp add: unat_of_nat)
  with b show ?thesis by (simp add: sample_Unmarshal_CDSData_def)
qed

lemma sample_Marshal_SignedCDSData_inverse:
  assumes "sample_Marshal_SignedCDSData d = Some b"
  shows "sample_Unmarshal_SignedCDSData b = Some d"
proof -
  from assms have len: "length (S_CodeHash d) < 256" "length (S_MetaDataHash d) < 256"
    and b: "b = of_nat (length (S_CodeHash d)) # of_nat (length (S_MetaDataHash d)) #
                S_CodeHash d @ S_MetaDataHash d @ S_SignatureHash d"
    by (auto simp: sample_Marshal_SignedCDSData_def split: if_splits)
  from len have "unat (of_nat (length (S_CodeHash d)) :: byte) = length (S_CodeHash d)"
    "unat (of_nat (length (S_MetaDataHash d)) :: byte) = length (S_MetaDataHash d)"
    by (simp_all add: unat_of_nat)
  with b show ?thesis by (simp add: sample_Unmarshal_SignedCDSData_def)
qed

lemma sample_externals_roundtrip: "proto_roundtrip sample_externals"
  using sample_Marshal_CDSData_inverse sample_Marshal_SignedCDSData_inverse
  by (auto simp: proto_roundtrip_def sample_externals_def sample_Unmarshal_CDS_def)

subsection \<open>What a failed initialisation leaves\<close>

lemma CDSPackage_InitFromBuffer_failure_clears:
  assumes "CDSPackage_InitFromBuffer X p b = (Inl e, p')"
  shows "p' = CDSPackage_new"
proof (cases "proto_Unmarshal_CDS X (slice_bytes b)")
  case None
  with assms show ?thesis
    by (auto simp: CDSPackage_InitFromBuffer_def CDSPackage_new_def)
next
  case (Some ds)
  show ?thesis
  proof (cases "CDSPackage_getCDSData X (Some ds)")
    case (Inl e')
    with Some assms show ?thesis
      by (auto simp: CDSPackage_InitFromBuffer_def CDSPackage_new_def)
  next
    case (Inr r)
    obtain bs d where r: "r = (bs, d)" by (cases r)
    from CDSPackage_getCDSData_Inr [of X ds bs d] Inr r
    obtain cid where "ChaincodeId_of ds = Inr cid" by auto
    with Some Inr r assms show ?thesis
      by (simp add: CDSPackage_InitFromBuffer_def Let_def)
  qed
qed

lemma CDSPackage_InitFromFS_failure_clears:
  assumes "CDSPackage_InitFromFS X fs p ccname ccversion = (Inl e, p')"
  shows "p' = CDSPackage_new"
  using assms
  by (auto simp: CDSPackage_InitFromFS_def CDSPackage_new_def Let_def
           split: option.splits sum.splits prod.splits)

lemma SignedCDSPackage_InitFromBuffer_failure_clears:
  assumes "SignedCDSPackage_InitFromBuffer X p b = (Inl e, p')"
  shows "p' = SignedCDSPackage_new"
proof (cases "proto_Unmarshal_Envelope X (slice_bytes b)")
  case None
  with assms show ?thesis
    by (auto simp: SignedCDSPackage_InitFromBuffer_def SignedCDSPackage_new_def)
next
  case env: (Some env)
  show ?thesis
  proof (cases "ExtractSignedCCDepSpec X env")
    case None
    with env assms show ?thesis
      by (auto simp: SignedCDSPackage_InitFromBuffer_def SignedCDSPackage_new_def)
  next
    case (Some hs)
    obtain cHdr sds where hs: "hs = (cHdr, sds)" by (cases hs)
    show ?thesis
    proof (cases "Type cHdr = HeaderType_CHAINCODE_PACKAGE X")
      case False
      with env Some hs assms show ?thesis
        by (auto simp: SignedCDSPackage_InitFromBuffer_def SignedCDSPackage_new_def)
    next
      case True
      show ?thesis
      proof (cases "proto_Unmarshal_CDS X (slice_bytes (ChaincodeDeploymentSpec sds))")
        case None
        with env Some hs True assms show ?thesis
          by (auto simp: SignedCDSPackage_InitFromBuffer_def SignedCDSPackage_new_def)
      next
        case ds: (Some ds)
        show ?thesis
        proof (cases "SignedCDSPackage_getCDSData X (Some sds)")
          case (Inl e')
          with env Some hs True ds assms show ?thesis
            by (auto simp: SignedCDSPackage_InitFromBuffer_def SignedCDSPackage_new_def)
        next
          case (Inr r)
          obtain bs d where r: "r = (bs, d)" by (cases r)
          from SignedCDSPackage_getCDSData_Inr [of X sds bs d] Inr r ds
          obtain cid where "ChaincodeId_of ds = Inr cid" by auto
          with env Some hs True ds Inr r assms show ?thesis
            by (simp add: SignedCDSPackage_InitFromBuffer_def Let_def)
        qed
      qed
    qed
  qed
qed

lemma SignedCDSPackage_InitFromFS_not_found:
  assumes "GetChaincodePackage X fs ccname ccversion = Inl e"
  shows "SignedCDSPackage_InitFromFS X fs p ccname ccversion =
           (Inl e, p\<lparr>S_buf := None, S_sDepSpec := None, S_depSpec := None, S_env := None\<rparr>)"
  using assms by (simp add: SignedCDSPackage_InitFromFS_def)

section \<open>Properties of the digest computation\<close>

subsection \<open>The code hash\<close>

text \<open>
  C2. The claim: both digest computations set the code hash to the digest of the code
  package, \<open>H(codePackage)\<close>. The code calls \<open>hash.Sum(cds.CodePackage)\<close> on a hash
  object nothing was written to, so the field it stores is the code package itself
  followed by the digest of the empty input: whenever a digest record is returned, its
  code hash is \<open>codePackage @ H []\<close>, for the unsigned and for the signed package.
\<close>

theorem getCDSData_CodeHash_appends:
  "(CDSPackage_getCDSData X (Some cds) = Inr (b, d) \<longrightarrow>
      (\<exists>H. GetHash X = Some H \<and> CodeHash d = CodePackage cds @ H [])) \<and>
   (SignedCDSPackage_getCDSData X (Some scds) = Inr (b', d') \<longrightarrow>
      (\<exists>H cds'. GetHash X = Some H \<and>
         proto_Unmarshal_CDS X (slice_bytes (ChaincodeDeploymentSpec scds)) = Some cds' \<and>
         S_CodeHash d' = CodePackage cds' @ H []))"
proof (intro conjI impI)
  assume "CDSPackage_getCDSData X (Some cds) = Inr (b, d)"
  from CDSPackage_getCDSData_Inr [OF this]
  show "\<exists>H. GetHash X = Some H \<and> CodeHash d = CodePackage cds @ H []"
    by auto
next
  assume "SignedCDSPackage_getCDSData X (Some scds) = Inr (b', d')"
  from SignedCDSPackage_getCDSData_Inr [OF this]
  show "\<exists>H cds'. GetHash X = Some H \<and>
         proto_Unmarshal_CDS X (slice_bytes (ChaincodeDeploymentSpec scds)) = Some cds' \<and>
         S_CodeHash d' = CodePackage cds' @ H []"
    by auto
qed

text \<open>
  For the code package "abc" of the chaincode mycc:1.0 the stored code hash is
  "abc" followed by the digest of the empty input, which is not the digest of "abc".
\<close>

theorem getCDSData_CodeHash_abc:
  "CDSPackage_getCDSData sample_externals (Some sample_cds) =
     Inr ([5, 97, 98, 99, 0, 0, 7, 59],
          \<lparr>CodeHash = bytes_of_string ''abc'' @ sample_hash [], MetaDataHash = [7, 59]\<rparr>) \<and>
   SignedCDSPackage_getCDSData sample_externals (Some sample_scds) =
     Inr ([5, 2, 97, 98, 99, 0, 0, 7, 59, 4, 147],
          \<lparr>S_CodeHash = bytes_of_string ''abc'' @ sample_hash [], S_MetaDataHash = [7, 59],
           S_SignatureHash = [4, 147]\<rparr>) \<and>
   CodePackage sample_cds = bytes_of_string ''abc'' \<and>
   bytes_of_string ''abc'' @ sample_hash [] \<noteq> sample_hash (bytes_of_string ''abc'')"
  using getCDSData_CodeHash_appends
          [of sample_externals sample_cds "[5, 97, 98, 99, 0, 0, 7, 59]"
              "\<lparr>CodeHash = [97, 98, 99, 0, 0], MetaDataHash = [7, 59]\<rparr>"
              sample_scds "[5, 2, 97, 98, 99, 0, 0, 7, 59, 4, 147]"
              "\<lparr>S_CodeHash = [97, 98, 99, 0, 0], S_MetaDataHash = [7, 59],
                S_SignatureHash = [4, 147]\<rparr>"]
  by (simp add: sample_unsigned_run sample_signed_run)
     (simp add: sample_hash_def sample_cds_def bytes_of_string_def)

subsection \<open>The metadata hash\<close>

text \<open>
  C6. Both digest computations set the metadata hash to \<open>H(name @ version)\<close>: the
  name bytes and then the version bytes are written into the reset hash object, with
  nothing between them. Every digest record that the unsigned or the signed
  computation returns has this metadata hash, for the name and the version of the
  deployment spec (of the decoded inner spec, for the signed package).
\<close>

theorem getCDSData_MetaDataHash:
  "(CDSPackage_getCDSData X (Some cds) = Inr (b, d) \<longrightarrow>
      (\<exists>H cid. GetHash X = Some H \<and> ChaincodeId_of cds = Inr cid \<and>
         MetaDataHash d = H (bytes_of_string (Name cid) @ bytes_of_string (Version cid)))) \<and>
   (SignedCDSPackage_getCDSData X (Some scds) = Inr (b', d') \<longrightarrow>
      (\<exists>H cds' cid. GetHash X = Some H \<and>
         proto_Unmarshal_CDS X (slice_bytes (ChaincodeDeploymentSpec scds)) = Some cds' \<and>
         ChaincodeId_of cds' = Inr cid \<and>
         S_MetaDataHash d' = H (bytes_of_string (Name cid) @ bytes_of_string (Version cid))))"
proof (intro conjI impI)
  assume "CDSPackage_getCDSData X (Some cds) = Inr (b, d)"
  from CDSPackage_getCDSData_Inr [OF this]
  show "\<exists>H cid. GetHash X = Some H \<and> ChaincodeId_of cds = Inr cid \<and>
         MetaDataHash d = H (bytes_of_string (Name cid) @ bytes_of_string (Version cid))"
    by auto
next
  assume "SignedCDSPackage_getCDSData X (Some scds) = Inr (b', d')"
  from SignedCDSPackage_getCDSData_Inr [OF this]
  show "\<exists>H cds' cid. GetHash X = Some H \<and>
         proto_Unmarshal_CDS X (slice_bytes (ChaincodeDeploymentSpec scds)) = Some cds' \<and>
         ChaincodeId_of cds' = Inr cid \<and>
         S_MetaDataHash d' = H (bytes_of_string (Name cid) @ bytes_of_string (Version cid))"
    by auto
qed

text \<open>The chaincode mycc:1.0: the metadata hash is the digest of "mycc1.0".\<close>

theorem getCDSData_MetaDataHash_mycc:
  "CDSPackage_getCDSData sample_externals (Some sample_cds) =
     Inr ([5, 97, 98, 99, 0, 0, 7, 59],
          \<lparr>CodeHash = [97, 98, 99, 0, 0],
           MetaDataHash = sample_hash (bytes_of_string ''mycc'' @ bytes_of_string ''1.0'')\<rparr>) \<and>
   SignedCDSPackage_getCDSData sample_externals (Some sample_scds) =
     Inr ([5, 2, 97, 98, 99, 0, 0, 7, 59, 4, 147],
          \<lparr>S_CodeHash = [97, 98, 99, 0, 0],
           S_MetaDataHash = sample_hash (bytes_of_string ''mycc'' @ bytes_of_string ''1.0''),
           S_SignatureHash = [4, 147]\<rparr>)"
  using getCDSData_MetaDataHash
          [of sample_externals sample_cds "[5, 97, 98, 99, 0, 0, 7, 59]"
              "\<lparr>CodeHash = [97, 98, 99, 0, 0], MetaDataHash = [7, 59]\<rparr>"
              sample_scds "[5, 2, 97, 98, 99, 0, 0, 7, 59, 4, 147]"
              "\<lparr>S_CodeHash = [97, 98, 99, 0, 0], S_MetaDataHash = [7, 59],
                S_SignatureHash = [4, 147]\<rparr>"]
  by (simp add: sample_unsigned_run sample_signed_run)
     (simp add: sample_hash_def bytes_of_string_def)

subsection \<open>The signature hash\<close>

text \<open>
  C7. The claim: the signature hash is the digest of the instantiation policy followed
  by the endorser bytes in the given order, so that permuting the endorsements changes
  the hashed bytes and the signature hash. The endorser bytes are written one after the
  other with nothing between them: two endorsements with the endorsers "a" and "aa"
  give the same hashed bytes in both orders, and the same digest record.
\<close>

theorem signatureHash_order_counterexample:
  "OwnerEndorsements sample_scds = [\<lparr>Endorser = [97]\<rparr>, \<lparr>Endorser = [97, 97]\<rparr>] \<and>
   rev (OwnerEndorsements sample_scds) \<noteq> OwnerEndorsements sample_scds \<and>
   SignedCDSPackage_getCDSData sample_externals
     (Some (sample_scds\<lparr>OwnerEndorsements := rev (OwnerEndorsements sample_scds)\<rparr>)) =
     Inr ([5, 2, 97, 98, 99, 0, 0, 7, 59, 4, 147],
          \<lparr>S_CodeHash = [97, 98, 99, 0, 0], S_MetaDataHash = [7, 59],
           S_SignatureHash = [4, 147]\<rparr>) \<and>
   SignedCDSPackage_getCDSData sample_externals (Some sample_scds) =
     Inr ([5, 2, 97, 98, 99, 0, 0, 7, 59, 4, 147],
          \<lparr>S_CodeHash = [97, 98, 99, 0, 0], S_MetaDataHash = [7, 59],
           S_SignatureHash = [4, 147]\<rparr>)"
  by (simp add: SignedCDSPackage_getCDSData_def sample_defs model_defs Let_def)

text \<open>
  C7, amended. Every digest record the signed computation returns has the signature
  hash \<open>H(policy @ endorser_1 @ ... @ endorser_n)\<close>, the endorsers in the given
  order; replacing the endorsements (by a permutation or by any other list) changes
  the signature hash only if it changes this concatenation.
\<close>

theorem signatureHash_concat:
  "(SignedCDSPackage_getCDSData X (Some scds) = Inr (b, d) \<longrightarrow>
      (\<exists>H policy. GetHash X = Some H \<and> InstantiationPolicy scds = Some policy \<and>
         S_SignatureHash d =
           H (policy @ concat (map Endorser (OwnerEndorsements scds))))) \<and>
   (SignedCDSPackage_getCDSData X (Some scds) = Inr (b, d) \<and>
    SignedCDSPackage_getCDSData X (Some (scds\<lparr>OwnerEndorsements := es\<rparr>)) = Inr (b', d') \<and>
    S_SignatureHash d' \<noteq> S_SignatureHash d \<longrightarrow>
      concat (map Endorser es) \<noteq> concat (map Endorser (OwnerEndorsements scds)))"
proof (intro conjI impI)
  assume "SignedCDSPackage_getCDSData X (Some scds) = Inr (b, d)"
  from SignedCDSPackage_getCDSData_Inr [OF this]
  show "\<exists>H policy. GetHash X = Some H \<and> InstantiationPolicy scds = Some policy \<and>
         S_SignatureHash d = H (policy @ concat (map Endorser (OwnerEndorsements scds)))"
    by auto
next
  assume a: "SignedCDSPackage_getCDSData X (Some scds) = Inr (b, d) \<and>
    SignedCDSPackage_getCDSData X (Some (scds\<lparr>OwnerEndorsements := es\<rparr>)) = Inr (b', d') \<and>
    S_SignatureHash d' \<noteq> S_SignatureHash d"
  from a SignedCDSPackage_getCDSData_Inr [of X scds b d]
  obtain H policy where 1: "GetHash X = Some H" "InstantiationPolicy scds = Some policy"
    "S_SignatureHash d = H (policy @ concat (map Endorser (OwnerEndorsements scds)))"
    by auto
  from a SignedCDSPackage_getCDSData_Inr [of X "scds\<lparr>OwnerEndorsements := es\<rparr>" b' d']
  have 2: "S_SignatureHash d' = H (policy @ concat (map Endorser es))"
    using 1 by auto
  from a 1 2 show "concat (map Endorser es) \<noteq> concat (map Endorser (OwnerEndorsements scds))"
    by auto
qed

theorem signatureHash_concat_sample:
  "SignedCDSPackage_getCDSData sample_externals (Some sample_scds) =
     Inr ([5, 2, 97, 98, 99, 0, 0, 7, 59, 4, 147],
          \<lparr>S_CodeHash = [97, 98, 99, 0, 0], S_MetaDataHash = [7, 59],
           S_SignatureHash = sample_hash ([112] @ [97] @ [97, 97])\<rparr>) \<and>
   SignedCDSPackage_getCDSData sample_externals
     (Some (sample_scds\<lparr>OwnerEndorsements := [\<lparr>Endorser = [98]\<rparr>]\<rparr>)) =
     Inr ([5, 2, 97, 98, 99, 0, 0, 7, 59, 2, 210],
          \<lparr>S_CodeHash = [97, 98, 99, 0, 0], S_MetaDataHash = [7, 59],
           S_SignatureHash = [2, 210]\<rparr>) \<and>
   concat (map Endorser [\<lparr>Endorser = [98]\<rparr>]) \<noteq>
     concat (map Endorser (OwnerEndorsements sample_scds))"
  using signatureHash_concat
          [of sample_externals sample_scds "[5, 2, 97, 98, 99, 0, 0, 7, 59, 4, 147]"
              "\<lparr>S_CodeHash = [97, 98, 99, 0, 0], S_MetaDataHash = [7, 59],
                S_SignatureHash = [4, 147]\<rparr>"
              "[\<lparr>Endorser = [98]\<rparr>]" "[5, 2, 97, 98, 99, 0, 0, 7, 59, 2, 210]"
              "\<lparr>S_CodeHash = [97, 98, 99, 0, 0], S_MetaDataHash = [7, 59],
                S_SignatureHash = [2, 210]\<rparr>"]
  by (simp add: SignedCDSPackage_getCDSData_def sample_defs model_defs Let_def)

subsection \<open>The instantiation policy\<close>

text \<open>
  C5. The claim: a signed spec whose instantiation policy is empty or absent fails
  with PolicyMissing whatever its other fields are. The code tests
  \<open>scds.InstantiationPolicy == nil\<close>: a policy that is present with no bytes is
  accepted and hashed, and with a nil policy an inner spec that does not decode fails
  earlier, with the decoder's error.
\<close>

theorem PolicyMissing_counterexample:
  "InstantiationPolicy (sample_scds\<lparr>InstantiationPolicy := Some []\<rparr>) = Some [] \<and>
   SignedCDSPackage_getCDSData sample_externals
     (Some (sample_scds\<lparr>InstantiationPolicy := Some []\<rparr>)) =
     Inr ([5, 2, 97, 98, 99, 0, 0, 7, 59, 3, 35],
          \<lparr>S_CodeHash = [97, 98, 99, 0, 0], S_MetaDataHash = [7, 59],
           S_SignatureHash = [3, 35]\<rparr>) \<and>
   InstantiationPolicy
     (sample_scds\<lparr>ChaincodeDeploymentSpec := Some [9], InstantiationPolicy := None\<rparr>) = None \<and>
   SignedCDSPackage_getCDSData sample_externals
     (Some (sample_scds\<lparr>ChaincodeDeploymentSpec := Some [9], InstantiationPolicy := None\<rparr>)) =
     Inl DecodeError"
  by (simp add: SignedCDSPackage_getCDSData_def sample_defs model_defs Let_def)

text \<open>
  C5, amended. A signed spec whose instantiation policy is nil never gets a digest
  record; the failure is PolicyMissing whenever the steps before the policy check
  succeed (the inner spec decodes and names its chaincode, the hash provider is
  available), and then \<open>InitFromBuffer\<close> of an envelope of the right type that
  carries the spec fails with PolicyMissing and leaves the package cleared.
\<close>

theorem PolicyMissing_when_nil:
  assumes "InstantiationPolicy scds = None"
  shows "(\<exists>e. SignedCDSPackage_getCDSData X (Some scds) = Inl e) \<and>
         (proto_Unmarshal_CDS X (slice_bytes (ChaincodeDeploymentSpec scds)) = Some cds \<and>
          InitFactories X \<and> GetHash X = Some H \<and> ChaincodeId_of cds = Inr cid \<longrightarrow>
            SignedCDSPackage_getCDSData X (Some scds) = Inl PolicyMissing \<and>
            (proto_Unmarshal_Envelope X (slice_bytes buf_arg) = Some env \<and>
             ExtractSignedCCDepSpec X env = Some (cHdr, scds) \<and>
             Type cHdr = HeaderType_CHAINCODE_PACKAGE X \<longrightarrow>
               SignedCDSPackage_InitFromBuffer X ccpack buf_arg =
                 (Inl PolicyMissing, SignedCDSPackage_new)))"
proof (intro conjI impI)
  show "\<exists>e. SignedCDSPackage_getCDSData X (Some scds) = Inl e"
    using assms
    by (auto simp: SignedCDSPackage_getCDSData_def Let_def split: option.splits sum.splits)
next
  assume a: "proto_Unmarshal_CDS X (slice_bytes (ChaincodeDeploymentSpec scds)) = Some cds \<and>
          InitFactories X \<and> GetHash X = Some H \<and> ChaincodeId_of cds = Inr cid"
  then show g: "SignedCDSPackage_getCDSData X (Some scds) = Inl PolicyMissing"
    using assms by (simp add: SignedCDSPackage_getCDSData_def Let_def)
  assume "proto_Unmarshal_Envelope X (slice_bytes buf_arg) = Some env \<and>
             ExtractSignedCCDepSpec X env = Some (cHdr, scds) \<and>
             Type cHdr = HeaderType_CHAINCODE_PACKAGE X"
  with a g show "SignedCDSPackage_InitFromBuffer X ccpack buf_arg =
                 (Inl PolicyMissing, SignedCDSPackage_new)"
    by (simp add: SignedCDSPackage_InitFromBuffer_def SignedCDSPackage_new_def Let_def)
qed

theorem PolicyMissing_when_nil_sample:
  "InstantiationPolicy (sample_scds\<lparr>InstantiationPolicy := None\<rparr>) = None \<and>
   SignedCDSPackage_getCDSData sample_externals
     (Some (sample_scds\<lparr>InstantiationPolicy := None\<rparr>)) = Inl PolicyMissing \<and>
   SignedCDSPackage_InitFromBuffer sample_externals SignedCDSPackage_new (Some [3]) =
     (Inl PolicyMissing, SignedCDSPackage_new)"
  using PolicyMissing_when_nil
          [of "sample_scds\<lparr>InstantiationPolicy := None\<rparr>" sample_externals sample_cds
              sample_hash "\<lparr>Name = ''mycc'', Version = ''1.0''\<rparr>" "Some [3]"
              "\<lparr>Payload = [3], Signature = []\<rparr>" "\<lparr>Type = 6\<rparr>" SignedCDSPackage_new]
  by (simp add: sample_defs model_defs)

section \<open>Validation\<close>

text \<open>
  C3. For a loaded package and a ChaincodeData with the package's name and version whose
  data decodes to a digest record, \<open>ValidateCC\<close> returns the deployment spec if
  every field of the decoded record equals, byte for byte, the field of the package's
  record (code hash, metadata hash and, for the signed package, signature hash), and
  DigestMismatch otherwise. \<open>Equals\<close> of a nil record is false.
\<close>

theorem ValidateCC_digest_comparison:
  "(CDSPackage_loaded p bf ds cid d \<and>
    CD_Name cd = Name cid \<and> CD_Version cd = Version cid \<and>
    proto_Unmarshal_CDSData X (CD_Data cd) = Some ot \<longrightarrow>
      CDSPackage_ValidateCC X p (Some cd) =
        (if CodeHash d = CodeHash ot \<and> MetaDataHash d = MetaDataHash ot
         then Inr ds else Inl DigestMismatch)) \<and>
   (SignedCDSPackage_loaded sp sbf env sds sdeps scid sd \<and>
    CD_Name scd = Name scid \<and> CD_Version scd = Version scid \<and>
    proto_Unmarshal_SignedCDSData X (CD_Data scd) = Some sot \<longrightarrow>
      SignedCDSPackage_ValidateCC X sp (Some scd) =
        (if S_CodeHash sd = S_CodeHash sot \<and> S_MetaDataHash sd = S_MetaDataHash sot \<and>
            S_SignatureHash sd = S_SignatureHash sot
         then Inr sdeps else Inl DigestMismatch)) \<and>
   CDSData_Equals (Some d) None = Inr False \<and>
   SignedCDSData_Equals (Some sd) None = Inr False"
proof (intro conjI impI)
  assume "CDSPackage_loaded p bf ds cid d \<and>
    CD_Name cd = Name cid \<and> CD_Version cd = Version cid \<and>
    proto_Unmarshal_CDSData X (CD_Data cd) = Some ot"
  then show "CDSPackage_ValidateCC X p (Some cd) =
        (if CodeHash d = CodeHash ot \<and> MetaDataHash d = MetaDataHash ot
         then Inr ds else Inl DigestMismatch)"
    by (simp add: CDSPackage_loaded_def CDSPackage_ValidateCC_def CDSData_Equals_def
          bytes_Equal_def)
next
  assume "SignedCDSPackage_loaded sp sbf env sds sdeps scid sd \<and>
    CD_Name scd = Name scid \<and> CD_Version scd = Version scid \<and>
    proto_Unmarshal_SignedCDSData X (CD_Data scd) = Some sot"
  then show "SignedCDSPackage_ValidateCC X sp (Some scd) =
        (if S_CodeHash sd = S_CodeHash sot \<and> S_MetaDataHash sd = S_MetaDataHash sot \<and>
            S_SignatureHash sd = S_SignatureHash sot
         then Inr sdeps else Inl DigestMismatch)"
    by (auto simp: SignedCDSPackage_loaded_def SignedCDSPackage_ValidateCC_def
          SignedCDSData_Equals_def bytes_Equal_def)
next
  show "CDSData_Equals (Some d) None = Inr False"
    by (simp add: CDSData_Equals_def)
next
  show "SignedCDSData_Equals (Some sd) None = Inr False"
    by (simp add: SignedCDSData_Equals_def)
qed

theorem ValidateCC_digest_comparison_sample:
  "CDSPackage_ValidateCC sample_externals sample_package
     (Some \<lparr>CD_Name = ''mycc'', CD_Version = ''1.0'',
            CD_Data = [5, 97, 98, 99, 0, 0, 7, 60]\<rparr>) = Inl DigestMismatch \<and>
   CDSPackage_ValidateCC sample_externals sample_package
     (Some \<lparr>CD_Name = ''mycc'', CD_Version = ''1.0'',
            CD_Data = [5, 97, 98, 99, 0, 0, 7, 59]\<rparr>) = Inr sample_cds \<and>
   SignedCDSPackage_ValidateCC sample_externals sample_signed_package
     (Some \<lparr>CD_Name = ''mycc'', CD_Version = ''1.0'',
            CD_Data = [5, 2, 97, 98, 99, 0, 0, 7, 59, 4, 146]\<rparr>) = Inl DigestMismatch \<and>
   SignedCDSPackage_ValidateCC sample_externals sample_signed_package
     (Some \<lparr>CD_Name = ''mycc'', CD_Version = ''1.0'',
            CD_Data = [5, 2, 97, 98, 99, 0, 0, 7, 59, 4, 147]\<rparr>) = Inr sample_cds"
  using
    ValidateCC_digest_comparison
      [where X = sample_externals and p = sample_package and bf = "Some [1]"
         and ds = sample_cds and cid = "\<lparr>Name = ''mycc'', Version = ''1.0''\<rparr>"
         and d = "\<lparr>CodeHash = [97, 98, 99, 0, 0], MetaDataHash = [7, 59]\<rparr>"
         and cd = "\<lparr>CD_Name = ''mycc'', CD_Version = ''1.0'',
                    CD_Data = [5, 97, 98, 99, 0, 0, 7, 60]\<rparr>"
         and ot = "\<lparr>CodeHash = [97, 98, 99, 0, 0], MetaDataHash = [7, 60]\<rparr>"
         and sp = sample_signed_package and sbf = "Some [2]"
         and env = "\<lparr>Payload = [2], Signature = []\<rparr>" and sds = sample_scds
         and sdeps = sample_cds and scid = "\<lparr>Name = ''mycc'', Version = ''1.0''\<rparr>"
         and sd = "\<lparr>S_CodeHash = [97, 98, 99, 0, 0], S_MetaDataHash = [7, 59],
                    S_SignatureHash = [4, 147]\<rparr>"
         and scd = "\<lparr>CD_Name = ''mycc'', CD_Version = ''1.0'',
                     CD_Data = [5, 2, 97, 98, 99, 0, 0, 7, 59, 4, 146]\<rparr>"
         and sot = "\<lparr>S_CodeHash = [97, 98, 99, 0, 0], S_MetaDataHash = [7, 59],
                     S_SignatureHash = [4, 146]\<rparr>"]
    ValidateCC_digest_comparison
      [where X = sample_externals and p = sample_package and bf = "Some [1]"
         and ds = sample_cds and cid = "\<lparr>Name = ''mycc'', Version = ''1.0''\<rparr>"
         and d = "\<lparr>CodeHash = [97, 98, 99, 0, 0], MetaDataHash = [7, 59]\<rparr>"
         and cd = "\<lparr>CD_Name = ''mycc'', CD_Version = ''1.0'',
                    CD_Data = [5, 97, 98, 99, 0, 0, 7, 59]\<rparr>"
         and ot = "\<lparr>CodeHash = [97, 98, 99, 0, 0], MetaDataHash = [7, 59]\<rparr>"
         and sp = sample_signed_package and sbf = "Some [2]"
         and env = "\<lparr>Payload = [2], Signature = []\<rparr>" and sds = sample_scds
         and sdeps = sample_cds and scid = "\<lparr>Name = ''mycc'', Version = ''1.0''\<rparr>"
         and sd = "\<lparr>S_CodeHash = [97, 98, 99, 0, 0], S_MetaDataHash = [7, 59],
                    S_SignatureHash = [4, 147]\<rparr>"
         and scd = "\<lparr>CD_Name = ''mycc'', CD_Version = ''1.0'',
                     CD_Data = [5, 2, 97, 98, 99, 0, 0, 7, 59, 4, 147]\<rparr>"
         and sot = "\<lparr>S_CodeHash = [97, 98, 99, 0, 0], S_MetaDataHash = [7, 59],
                     S_SignatureHash = [4, 147]\<rparr>"]
  by (simp add: sample_package_loaded sample_signed_package_loaded)
     (simp add: sample_defs)

text \<open>
  C9. For a loaded package and a ChaincodeData whose name or version differs from the
  package's, \<open>ValidateCC\<close> fails with IdentityMismatch, whatever the data and the
  decoder are; a result that comes from decoding or comparing the digest record
  (DecodeError, DigestMismatch, success) occurs only when name and version both match.
\<close>

theorem ValidateCC_identity_precheck:
  "(CDSPackage_loaded p bf ds cid d \<and>
    (CD_Name cd \<noteq> Name cid \<or> CD_Version cd \<noteq> Version cid) \<longrightarrow>
      CDSPackage_ValidateCC X p (Some cd) = Inl IdentityMismatch) \<and>
   (SignedCDSPackage_loaded sp sbf env sds sdeps scid sd \<and>
    (CD_Name cd \<noteq> Name scid \<or> CD_Version cd \<noteq> Version scid) \<longrightarrow>
      SignedCDSPackage_ValidateCC X sp (Some cd) = Inl IdentityMismatch) \<and>
   (CDSPackage_loaded p bf ds cid d \<and>
    (CDSPackage_ValidateCC X p (Some cd) = Inl DecodeError \<or>
     CDSPackage_ValidateCC X p (Some cd) = Inl DigestMismatch \<or>
     CDSPackage_ValidateCC X p (Some cd) = Inr r) \<longrightarrow>
      CD_Name cd = Name cid \<and> CD_Version cd = Version cid) \<and>
   (SignedCDSPackage_loaded sp sbf env sds sdeps scid sd \<and>
    (SignedCDSPackage_ValidateCC X sp (Some cd) = Inl DecodeError \<or>
     SignedCDSPackage_ValidateCC X sp (Some cd) = Inl DigestMismatch \<or>
     SignedCDSPackage_ValidateCC X sp (Some cd) = Inr r) \<longrightarrow>
      CD_Name cd = Name scid \<and> CD_Version cd = Version scid)"
proof -
  have u: "CDSPackage_ValidateCC X p (Some cd) = Inl IdentityMismatch"
    if "CDSPackage_loaded p bf ds cid d"
      and "CD_Name cd \<noteq> Name cid \<or> CD_Version cd \<noteq> Version cid"
    using that by (auto simp: CDSPackage_loaded_def CDSPackage_ValidateCC_def)
  have s: "SignedCDSPackage_ValidateCC X sp (Some cd) = Inl IdentityMismatch"
    if "SignedCDSPackage_loaded sp sbf env sds sdeps scid sd"
      and "CD_Name cd \<noteq> Name scid \<or> CD_Version cd \<noteq> Version scid"
    using that by (auto simp: SignedCDSPackage_loaded_def SignedCDSPackage_ValidateCC_def)
  show ?thesis
  proof (intro conjI impI)
    assume "CDSPackage_loaded p bf ds cid d \<and>
      (CD_Name cd \<noteq> Name cid \<or> CD_Version cd \<noteq> Version cid)"
    then show "CDSPackage_ValidateCC X p (Some cd) = Inl IdentityMismatch"
      using u by blast
  next
    assume "SignedCDSPackage_loaded sp sbf env sds sdeps scid sd \<and>
      (CD_Name cd \<noteq> Name scid \<or> CD_Version cd \<noteq> Version scid)"
    then show "SignedCDSPackage_ValidateCC X sp (Some cd) = Inl IdentityMismatch"
      using s by blast
  next
    assume a: "CDSPackage_loaded p bf ds cid d \<and>
      (CDSPackage_ValidateCC X p (Some cd) = Inl DecodeError \<or>
       CDSPackage_ValidateCC X p (Some cd) = Inl DigestMismatch \<or>
       CDSPackage_ValidateCC X p (Some cd) = Inr r)"
    show "CD_Name cd = Name cid"
    proof (rule ccontr)
      assume "CD_Name cd \<noteq> Name cid"
      with a u have "CDSPackage_ValidateCC X p (Some cd) = Inl IdentityMismatch" by blast
      with a show False by auto
    qed
    show "CD_Version cd = Version cid"
    proof (rule ccontr)
      assume "CD_Version cd \<noteq> Version cid"
      with a u have "CDSPackage_ValidateCC X p (Some cd) = Inl IdentityMismatch" by blast
      with a show False by auto
    qed
  next
    assume a: "SignedCDSPackage_loaded sp sbf env sds sdeps scid sd \<and>
      (SignedCDSPackage_ValidateCC X sp (Some cd) = Inl DecodeError \<or>
       SignedCDSPackage_ValidateCC X sp (Some cd) = Inl DigestMismatch \<or>
       SignedCDSPackage_ValidateCC X sp (Some cd) = Inr r)"
    show "CD_Name cd = Name scid"
    proof (rule ccontr)
      assume "CD_Name cd \<noteq> Name scid"
      with a s have "SignedCDSPackage_ValidateCC X sp (Some cd) = Inl IdentityMismatch"
        by blast
      with a show False by auto
    qed
    show "CD_Version cd = Version scid"
    proof (rule ccontr)
      assume "CD_Version cd \<noteq> Version scid"
      with a s have "SignedCDSPackage_ValidateCC X sp (Some cd) = Inl IdentityMismatch"
        by blast
      with a show False by auto
    qed
  qed
qed

theorem ValidateCC_identity_precheck_sample:
  "CDSPackage_ValidateCC sample_externals sample_package
     (Some \<lparr>CD_Name = ''mycc'', CD_Version = ''1.1'', CD_Data = [255]\<rparr>) =
     Inl IdentityMismatch \<and>
   SignedCDSPackage_ValidateCC sample_externals sample_signed_package
     (Some \<lparr>CD_Name = ''mycc'', CD_Version = ''1.1'', CD_Data = [255]\<rparr>) =
     Inl IdentityMismatch \<and>
   proto_Unmarshal_CDSData sample_externals [255] = None \<and>
   proto_Unmarshal_SignedCDSData sample_externals [255] = None"
  using
    ValidateCC_identity_precheck
      [where X = sample_externals and p = sample_package and bf = "Some [1]"
         and ds = sample_cds and cid = "\<lparr>Name = ''mycc'', Version = ''1.0''\<rparr>"
         and d = "\<lparr>CodeHash = [97, 98, 99, 0, 0], MetaDataHash = [7, 59]\<rparr>"
         and cd = "\<lparr>CD_Name = ''mycc'', CD_Version = ''1.1'', CD_Data = [255]\<rparr>"
         and sp = sample_signed_package and sbf = "Some [2]"
         and env = "\<lparr>Payload = [2], Signature = []\<rparr>" and sds = sample_scds
         and sdeps = sample_cds and scid = "\<lparr>Name = ''mycc'', Version = ''1.0''\<rparr>"
         and sd = "\<lparr>S_CodeHash = [97, 98, 99, 0, 0], S_MetaDataHash = [7, 59],
                    S_SignatureHash = [4, 147]\<rparr>"]
  by (simp add: sample_package_loaded sample_signed_package_loaded)
     (simp add: sample_defs)

section \<open>Installation\<close>

text \<open>
  C8. For a loaded package of either kind, when the store has a file at the path built
  from the package's name and version, \<open>PutChaincodeToFS\<close> fails with
  AlreadyExists and leaves the store as it is, whatever the stored bytes are; and after
  a call that succeeded, a second call on the same package fails with AlreadyExists.
\<close>

theorem PutChaincodeToFS_write_once:
  "(CDSPackage_loaded p (Some bf) ds cid d \<and>
    files fs (package_path X (Name cid) (Version cid)) = Some old \<longrightarrow>
      CDSPackage_PutChaincodeToFS X fs p = (Some AlreadyExists, fs)) \<and>
   (SignedCDSPackage_loaded sp (Some sbf) env sds sdeps scid sd \<and>
    files fs (package_path X (Name scid) (Version scid)) = Some old \<longrightarrow>
      SignedCDSPackage_PutChaincodeToFS X fs sp = (Some AlreadyExists, fs)) \<and>
   (CDSPackage_PutChaincodeToFS X fs p = (None, fs') \<longrightarrow>
      CDSPackage_PutChaincodeToFS X fs' p = (Some AlreadyExists, fs')) \<and>
   (SignedCDSPackage_PutChaincodeToFS X fs sp = (None, fs'') \<longrightarrow>
      SignedCDSPackage_PutChaincodeToFS X fs'' sp = (Some AlreadyExists, fs''))"
proof (intro conjI impI)
  assume "CDSPackage_loaded p (Some bf) ds cid d \<and>
    files fs (package_path X (Name cid) (Version cid)) = Some old"
  then show "CDSPackage_PutChaincodeToFS X fs p = (Some AlreadyExists, fs)"
    using CDSPackage_Put_exists [of p bf ds cid d fs X old] by simp
next
  assume "SignedCDSPackage_loaded sp (Some sbf) env sds sdeps scid sd \<and>
    files fs (package_path X (Name scid) (Version scid)) = Some old"
  then show "SignedCDSPackage_PutChaincodeToFS X fs sp = (Some AlreadyExists, fs)"
    using SignedCDSPackage_Put_exists [of sp sbf env sds sdeps scid sd fs X old] by simp
next
  assume "CDSPackage_PutChaincodeToFS X fs p = (None, fs')"
  then show "CDSPackage_PutChaincodeToFS X fs' p = (Some AlreadyExists, fs')"
    by (rule CDSPackage_Put_twice)
next
  assume "SignedCDSPackage_PutChaincodeToFS X fs sp = (None, fs'')"
  then show "SignedCDSPackage_PutChaincodeToFS X fs'' sp = (Some AlreadyExists, fs'')"
    by (rule SignedCDSPackage_Put_twice)
qed

theorem PutChaincodeToFS_write_once_sample:
  "CDSPackage_PutChaincodeToFS sample_externals empty_store sample_package =
     (None, empty_store\<lparr>files := [sample_path \<mapsto> [1]]\<rparr>) \<and>
   CDSPackage_PutChaincodeToFS sample_externals
     (empty_store\<lparr>files := [sample_path \<mapsto> [1]]\<rparr>) sample_package =
     (Some AlreadyExists, empty_store\<lparr>files := [sample_path \<mapsto> [1]]\<rparr>) \<and>
   SignedCDSPackage_PutChaincodeToFS sample_externals empty_store sample_signed_package =
     (None, empty_store\<lparr>files := [sample_path \<mapsto> [2]]\<rparr>) \<and>
   SignedCDSPackage_PutChaincodeToFS sample_externals
     (empty_store\<lparr>files := [sample_path \<mapsto> [2]]\<rparr>) sample_signed_package =
     (Some AlreadyExists, empty_store\<lparr>files := [sample_path \<mapsto> [2]]\<rparr>) \<and>
   SignedCDSPackage_PutChaincodeToFS sample_externals
     (empty_store\<lparr>files := [sample_path \<mapsto> [1]]\<rparr>) sample_signed_package =
     (Some AlreadyExists, empty_store\<lparr>files := [sample_path \<mapsto> [1]]\<rparr>)"
proof -
  have 1: "CDSPackage_PutChaincodeToFS sample_externals empty_store sample_package =
     (None, empty_store\<lparr>files := [sample_path \<mapsto> [1]]\<rparr>)"
    by (simp add: CDSPackage_PutChaincodeToFS_def sample_package_def sample_path_def
          sample_defs model_defs Let_def)
  have 2: "SignedCDSPackage_PutChaincodeToFS sample_externals empty_store
             sample_signed_package =
     (None, empty_store\<lparr>files := [sample_path \<mapsto> [2]]\<rparr>)"
    by (simp add: SignedCDSPackage_PutChaincodeToFS_def sample_signed_package_def
          sample_path_def sample_defs model_defs Let_def)
  have 3: "files (empty_store\<lparr>files := [sample_path \<mapsto> [1]]\<rparr>)
             (package_path sample_externals (Name \<lparr>Name = ''mycc'', Version = ''1.0''\<rparr>)
                (Version \<lparr>Name = ''mycc'', Version = ''1.0''\<rparr>)) = Some [1]"
    by (simp add: sample_path_def package_path_def sample_externals_def)
  note twice =
    PutChaincodeToFS_write_once
      [where X = sample_externals and fs = empty_store and p = sample_package
         and fs' = "empty_store\<lparr>files := [sample_path \<mapsto> [1]]\<rparr>"
         and sp = sample_signed_package
         and fs'' = "empty_store\<lparr>files := [sample_path \<mapsto> [2]]\<rparr>"]
  note exists =
    PutChaincodeToFS_write_once
      [where X = sample_externals
         and fs = "empty_store\<lparr>files := [sample_path \<mapsto> [1]]\<rparr>"
         and sp = sample_signed_package and sbf = "[2]"
         and env = "\<lparr>Payload = [2], Signature = []\<rparr>" and sds = sample_scds
         and sdeps = sample_cds and scid = "\<lparr>Name = ''mycc'', Version = ''1.0''\<rparr>"
         and sd = "\<lparr>S_CodeHash = [97, 98, 99, 0, 0], S_MetaDataHash = [7, 59],
                    S_SignatureHash = [4, 147]\<rparr>"
         and old = "[1]"]
  have 4: "CDSPackage_PutChaincodeToFS sample_externals
     (empty_store\<lparr>files := [sample_path \<mapsto> [1]]\<rparr>) sample_package =
     (Some AlreadyExists, empty_store\<lparr>files := [sample_path \<mapsto> [1]]\<rparr>)"
    using twice 1 by blast
  have 5: "SignedCDSPackage_PutChaincodeToFS sample_externals
     (empty_store\<lparr>files := [sample_path \<mapsto> [2]]\<rparr>) sample_signed_package =
     (Some AlreadyExists, empty_store\<lparr>files := [sample_path \<mapsto> [2]]\<rparr>)"
    using twice 2 by blast
  have 6: "SignedCDSPackage_PutChaincodeToFS sample_externals
     (empty_store\<lparr>files := [sample_path \<mapsto> [1]]\<rparr>) sample_signed_package =
     (Some AlreadyExists, empty_store\<lparr>files := [sample_path \<mapsto> [1]]\<rparr>)"
    using exists 3 sample_signed_package_loaded by blast
  from 1 4 2 5 6 show ?thesis by blast
qed

section \<open>Re-initialisation\<close>

text \<open>
  C4. The claim: a failed \<open>InitFromBuffer\<close> or \<open>InitFromFS\<close> leaves every
  field of the package cleared. \<open>SignedCDSPackage.InitFromFS\<close> clears four of the five
  fields and not \<open>data\<close>: after a successful load, a call for a package that the store
  does not have returns NotFound and leaves the digest record of the previous load in
  the package. The unsigned \<open>InitFromFS\<close> clears all of its fields on the same input.
\<close>

theorem SignedCDSPackage_InitFromFS_stale_data:
  "SignedCDSPackage_InitFromBuffer sample_externals SignedCDSPackage_new (Some [2]) =
     (Inr \<lparr>CD_Name = ''mycc'', CD_Version = ''1.0'',
           CD_Data = [5, 2, 97, 98, 99, 0, 0, 7, 59, 4, 147]\<rparr>,
      sample_signed_package) \<and>
   SignedCDSPackage_InitFromFS sample_externals empty_store sample_signed_package
     ''nosuch'' ''0'' =
     (Inl NotFound,
      \<lparr>S_buf = None, S_depSpec = None, S_sDepSpec = None, S_env = None,
       S_data = Some \<lparr>S_CodeHash = [97, 98, 99, 0, 0], S_MetaDataHash = [7, 59],
                      S_SignatureHash = [4, 147]\<rparr>\<rparr>) \<and>
   CDSPackage_InitFromFS sample_externals empty_store sample_package ''nosuch'' ''0'' =
     (Inl NotFound, \<lparr>buf = None, depSpec = None, data = None\<rparr>)"
  by (simp add: sample_signed_package_init)
     (simp add: SignedCDSPackage_InitFromFS_def CDSPackage_InitFromFS_def
        sample_signed_package_def sample_package_def empty_store_def
        GetChaincodePackage_def)

section \<open>Panics\<close>

text \<open>
  C10. No public operation, on any package and with any collaborators, ends in
  \<open>panic("nil cds")\<close>: the initialisers pass the spec they have just decoded to
  the digest computation, and the other two operations do not call it. On every
  package that calls of the initialisers produce from a fresh package, \<open>ValidateCC\<close>
  never dereferences a nil digest record: a reachable signed package whose signed spec
  is set has its digest record set, which is what the signed \<open>ValidateCC\<close> relies on
  without testing it.
\<close>

theorem no_nil_cds_panic_no_nil_data_deref:
  "fst (CDSPackage_InitFromBuffer X p b) \<noteq> Inl (Panic Nil_cds) \<and>
   fst (CDSPackage_InitFromFS X fs p ccname ccversion) \<noteq> Inl (Panic Nil_cds) \<and>
   CDSPackage_ValidateCC X p cd \<noteq> Inl (Panic Nil_cds) \<and>
   fst (CDSPackage_PutChaincodeToFS X fs p) \<noteq> Some (Panic Nil_cds) \<and>
   fst (SignedCDSPackage_InitFromBuffer X sp b) \<noteq> Inl (Panic Nil_cds) \<and>
   fst (SignedCDSPackage_InitFromFS X fs sp ccname ccversion) \<noteq> Inl (Panic Nil_cds) \<and>
   SignedCDSPackage_ValidateCC X sp cd \<noteq> Inl (Panic Nil_cds) \<and>
   fst (SignedCDSPackage_PutChaincodeToFS X fs sp) \<noteq> Some (Panic Nil_cds) \<and>
   (p \<in> CDSPackage_reachable \<longrightarrow>
      CDSPackage_ValidateCC X p cd \<noteq> Inl (Panic Nil_data)) \<and>
   (sp \<in> SignedCDSPackage_reachable \<longrightarrow>
      (S_sDepSpec sp \<noteq> None \<longrightarrow> S_data sp \<noteq> None) \<and>
      SignedCDSPackage_ValidateCC X sp cd \<noteq> Inl (Panic Nil_data))"
proof -
  have "SignedCDSPackage_ValidateCC X sp cd \<noteq> Inl (Panic Nil_data)"
    if "sp \<in> SignedCDSPackage_reachable"
    using that SignedCDSPackage_reachable_data [of sp]
      SignedCDSPackage_ValidateCC_no_nil_data [of sp X cd]
    by blast
  then show ?thesis
    using CDSPackage_InitFromBuffer_no_nil_cds [of X p b]
      CDSPackage_InitFromFS_no_nil_cds [of X fs p ccname ccversion]
      CDSPackage_ValidateCC_no_panic [of X p cd]
      PutChaincodeToFS_no_nil_cds(1) [of X fs p]
      PutChaincodeToFS_no_nil_cds(2) [of X fs sp]
      SignedCDSPackage_InitFromBuffer_no_nil_cds [of X sp b]
      SignedCDSPackage_InitFromFS_no_nil_cds [of X fs sp ccname ccversion]
      SignedCDSPackage_ValidateCC_no_nil_cds [of X sp cd]
      SignedCDSPackage_reachable_data [of sp]
    by blast
qed

theorem no_nil_cds_panic_no_nil_data_deref_sample:
  "sample_package \<in> CDSPackage_reachable \<and>
   sample_signed_package \<in> SignedCDSPackage_reachable \<and>
   S_sDepSpec sample_signed_package \<noteq> None \<and>
   S_data sample_signed_package \<noteq> None \<and>
   CDSPackage_ValidateCC sample_externals sample_package
     (Some \<lparr>CD_Name = ''mycc'', CD_Version = ''1.0'', CD_Data = [0]\<rparr>) \<noteq>
     Inl (Panic Nil_data) \<and>
   SignedCDSPackage_ValidateCC sample_externals sample_signed_package
     (Some \<lparr>CD_Name = ''mycc'', CD_Version = ''1.0'', CD_Data = [0, 0]\<rparr>) \<noteq>
     Inl (Panic Nil_data)"
proof -
  have s: "S_sDepSpec sample_signed_package \<noteq> None"
    by (simp add: sample_signed_package_def)
  note t = no_nil_cds_panic_no_nil_data_deref
      [where X = sample_externals and p = sample_package and sp = sample_signed_package]
  from t [where cd = "Some \<lparr>CD_Name = ''mycc'', CD_Version = ''1.0'', CD_Data = [0]\<rparr>"]
    t [where cd = "Some \<lparr>CD_Name = ''mycc'', CD_Version = ''1.0'', CD_Data = [0, 0]\<rparr>"]
    sample_package_reachable sample_signed_package_reachable s
  show ?thesis by blast
qed

section \<open>Round trip\<close>

text \<open>
  C1. With a codec that gives an encoded digest record back on decoding (and decodes
  the empty input to the message with no field set), whenever \<open>InitFromBuffer\<close>
  succeeds, \<open>ValidateCC\<close> on the resulting package with the very ChaincodeData that
  \<open>InitFromBuffer\<close> returned succeeds and returns the deployment spec decoded from
  the buffer (for the signed package: from the signed spec extracted from the
  envelope the buffer decodes to).
\<close>

theorem InitFromBuffer_ValidateCC_roundtrip:
  assumes "proto_roundtrip X"
  shows "(CDSPackage_InitFromBuffer X p b = (Inr cd, p') \<longrightarrow>
            (\<exists>ds. proto_Unmarshal_CDS X (slice_bytes b) = Some ds \<and>
                  CDSPackage_ValidateCC X p' (Some cd) = Inr ds)) \<and>
         (SignedCDSPackage_InitFromBuffer X sp sb = (Inr scd, sp') \<longrightarrow>
            (\<exists>env cHdr sds ds.
               proto_Unmarshal_Envelope X (slice_bytes sb) = Some env \<and>
               ExtractSignedCCDepSpec X env = Some (cHdr, sds) \<and>
               proto_Unmarshal_CDS X (slice_bytes (ChaincodeDeploymentSpec sds)) = Some ds \<and>
               SignedCDSPackage_ValidateCC X sp' (Some scd) = Inr ds))"
  using CDSPackage_roundtrip [OF assms, of p b cd p']
    SignedCDSPackage_roundtrip [OF assms, of sp sb scd sp']
  by blast

theorem InitFromBuffer_ValidateCC_roundtrip_sample:
  "proto_roundtrip sample_externals \<and>
   CDSPackage_InitFromBuffer sample_externals CDSPackage_new (Some [1]) =
     (Inr \<lparr>CD_Name = ''mycc'', CD_Version = ''1.0'', CD_Data = [5, 97, 98, 99, 0, 0, 7, 59]\<rparr>,
      sample_package) \<and>
   proto_Unmarshal_CDS sample_externals (slice_bytes (Some [1])) = Some sample_cds \<and>
   CDSPackage_ValidateCC sample_externals sample_package
     (Some \<lparr>CD_Name = ''mycc'', CD_Version = ''1.0'',
            CD_Data = [5, 97, 98, 99, 0, 0, 7, 59]\<rparr>) = Inr sample_cds \<and>
   SignedCDSPackage_InitFromBuffer sample_externals SignedCDSPackage_new (Some [2]) =
     (Inr \<lparr>CD_Name = ''mycc'', CD_Version = ''1.0'',
           CD_Data = [5, 2, 97, 98, 99, 0, 0, 7, 59, 4, 147]\<rparr>,
      sample_signed_package) \<and>
   SignedCDSPackage_ValidateCC sample_externals sample_signed_package
     (Some \<lparr>CD_Name = ''mycc'', CD_Version = ''1.0'',
            CD_Data = [5, 2, 97, 98, 99, 0, 0, 7, 59, 4, 147]\<rparr>) = Inr sample_cds"
proof -
  have u: "proto_Unmarshal_CDS sample_externals (slice_bytes (Some [1])) = Some sample_cds"
    by (simp add: sample_externals_def sample_Unmarshal_CDS_def slice_bytes_def)
  have e: "proto_Unmarshal_Envelope sample_externals (slice_bytes (Some [2])) =
             Some \<lparr>Payload = [2], Signature = []\<rparr>"
    by (simp add: sample_externals_def sample_Unmarshal_Envelope_def slice_bytes_def)
  have x: "ExtractSignedCCDepSpec sample_externals \<lparr>Payload = [2], Signature = []\<rparr> =
             Some (\<lparr>Type = 6\<rparr>, sample_scds)"
    by (simp add: sample_externals_def sample_Extract_def)
  have s: "proto_Unmarshal_CDS sample_externals
             (slice_bytes (ChaincodeDeploymentSpec sample_scds)) = Some sample_cds"
    by (simp add: sample_externals_def sample_Unmarshal_CDS_def slice_bytes_def
          sample_scds_def)
  note t = InitFromBuffer_ValidateCC_roundtrip [OF sample_externals_roundtrip,
      where p = CDSPackage_new and b = "Some [1]" and p' = sample_package
        and cd = "\<lparr>CD_Name = ''mycc'', CD_Version = ''1.0'',
                   CD_Data = [5, 97, 98, 99, 0, 0, 7, 59]\<rparr>"
        and sp = SignedCDSPackage_new and sb = "Some [2]" and sp' = sample_signed_package
        and scd = "\<lparr>CD_Name = ''mycc'', CD_Version = ''1.0'',
                    CD_Data = [5, 2, 97, 98, 99, 0, 0, 7, 59, 4, 147]\<rparr>"]
  from t sample_package_init u
  have 1: "CDSPackage_ValidateCC sample_externals sample_package
     (Some \<lparr>CD_Name = ''mycc'', CD_Version = ''1.0'',
            CD_Data = [5, 97, 98, 99, 0, 0, 7, 59]\<rparr>) = Inr sample_cds"
    by auto
  from t sample_signed_package_init e x s
  have 2: "SignedCDSPackage_ValidateCC sample_externals sample_signed_package
     (Some \<lparr>CD_Name = ''mycc'', CD_Version = ''1.0'',
            CD_Data = [5, 2, 97, 98, 99, 0, 0, 7, 59, 4, 147]\<rparr>) = Inr sample_cds"
    by auto
  from 1 2 u sample_externals_roundtrip sample_package_init sample_signed_package_init
  show ?thesis by blast
qed

end
